theory Spec2Isabelle
  imports Complex_Main "HOL-Library.Word"
begin

unbundle bit_operations_syntax

section \<open>Shallow embedding of final\_code.py\<close>

text \<open>
  The script keeps its state in module-level variables and talks to three collaborators
  of the platform: the clock (\<open>time.ticks_ms\<close>, \<open>time.ticks_diff\<close>), the serial port
  (\<open>uart.write\<close>) and the blob detector (\<open>img.find_blobs\<close>). The model passes the
  module-level variables around as the record \<open>globals\<close>, takes what the clock and the
  port answer as inputs of each call, and takes the detector's list of blobs as the
  argument of the validator.

  Numbers. Python integers are \<open>int\<close>. Python floats are modelled as real numbers, that
  is with exact arithmetic and \<open>math.pi\<close> as \<open>pi\<close>: the rounding and the overflow
  of the float unit are outside the model. \<open>int(f)\<close> on a float truncates towards zero
  (\<open>py_int\<close>), \<open>//\<close> and \<open>%\<close> on integers are \<open>div\<close> and \<open>mod\<close>, and \<open>%\<close> on
  floats with a positive divisor is \<open>py_fmod\<close>.

  Exceptions. Every function of the script wraps its body in \<open>try ... except\<close>. With
  integer arguments and exact arithmetic no statement of the geometry functions or of
  the validator raises: each division is guarded by the test before it. In
  \<open>send_target_coords\<close> the calls that can raise are \<open>struct.pack\<close> and \<open>uart.write\<close>;
  both are branches of the model.
\<close>

subsection \<open>Numeric helpers of the language\<close>

definition py_int :: "real \<Rightarrow> int" where
  "py_int r = (if 0 \<le> r then \<lfloor>r\<rfloor> else \<lceil>r\<rceil>)"

text \<open>
  \<open>x % y\<close> in exact arithmetic. The float operation of Python rounds: for a negative \<open>x\<close>
  very close to zero it returns \<open>y\<close> itself, where the exact value is below \<open>y\<close>.
\<close>

definition py_fmod :: "real \<Rightarrow> real \<Rightarrow> real" where
  "py_fmod x y = x - y * of_int \<lfloor>x / y\<rfloor>"

subsection \<open>Configuration (section 2 of the script)\<close>

definition STANDARD_SEND_INTERVAL_MS :: int where
  "STANDARD_SEND_INTERVAL_MS = 30"

definition CIRCLE_SEND_INTERVAL_MS :: int where
  "CIRCLE_SEND_INTERVAL_MS = 50"

definition SCREEN_WIDTH :: int where
  "SCREEN_WIDTH = 240"

definition SCREEN_HEIGHT :: int where
  "SCREEN_HEIGHT = 160"

definition SCREEN_CENTER_X :: int where
  "SCREEN_CENTER_X = SCREEN_WIDTH div 2"

definition SCREEN_CENTER_Y :: int where
  "SCREEN_CENTER_Y = SCREEN_HEIGHT div 2"

definition target_circle_time :: int where
  "target_circle_time = 15000"

definition smooth_factor :: real where
  "smooth_factor = 0.7"

subsection \<open>States, commands and the packet format (sections 3 and 4)\<close>

type_synonym byte = "8 word"

datatype work_state = STATE_IDLE | STATE_AIM_BULLSEYE | STATE_CIRCLE_TRACKING

definition CMD_AIM_BULLSEYE :: byte where
  "CMD_AIM_BULLSEYE = 0xA1"

definition CMD_CIRCLE_TRACKING :: byte where
  "CMD_CIRCLE_TRACKING = 0xA2"

definition CMD_IDLE :: byte where
  "CMD_IDLE = 0xA3"

text \<open>The keys of \<open>COMMAND_MAP\<close>; its values are the texts the script prints.\<close>

definition COMMAND_MAP :: "byte list" where
  "COMMAND_MAP = [CMD_AIM_BULLSEYE, CMD_CIRCLE_TRACKING, CMD_IDLE]"

definition TARGET_LOCKED_HEADER :: "byte list" where
  "TARGET_LOCKED_HEADER = [0x3C, 0x3B]"

definition TARGET_LOCKED_FOOTER :: "byte list" where
  "TARGET_LOCKED_FOOTER = [0x01, 0x01]"

text \<open>
  \<open>struct.pack('>H', v)\<close>: the two bytes of \<open>v\<close>, high byte first; \<open>struct.error\<close>
  (here \<open>None\<close>) when \<open>v\<close> is not an unsigned 16-bit value.
\<close>

definition struct_pack_H :: "int \<Rightarrow> byte list option" where
  "struct_pack_H v =
     (if 0 \<le> v \<and> v < 65536 then Some [word_of_int (drop_bit 8 v), word_of_int v]
      else None)"

subsection \<open>The module-level variables\<close>

record globals =
  current_send_interval_ms :: int
  last_uart_send_time :: int
  current_angle :: real
  circle_start_time :: "int option"
  last_target_point :: "(int \<times> int) option"
  current_state :: work_state
  uart_tx :: "byte list list"

text \<open>
  \<open>uart_tx\<close> is the transport: the packets \<open>uart.write\<close> has written, oldest first.
  \<open>current_state\<close> is the variable of the main block.
\<close>

definition initial_globals :: globals where
  "initial_globals =
     \<lparr> current_send_interval_ms = STANDARD_SEND_INTERVAL_MS,
       last_uart_send_time = 0,
       current_angle = 0,
       circle_start_time = None,
       last_target_point = None,
       current_state = STATE_IDLE,
       uart_tx = [] \<rparr>"

subsection \<open>The clock of the platform\<close>

text \<open>
  \<open>time.ticks_ms()\<close> is a millisecond counter that wraps at \<open>TICKS_PERIOD\<close>, and
  \<open>time.ticks_diff(a, b)\<close> is the signed difference of two readings, in
  \<open>[- TICKS_PERIOD / 2, TICKS_PERIOD / 2)\<close>. Both belong to the MicroPython runtime,
  not to the script; they are written here as the runtime computes them, with its
  period of \<open>2 ^ 30\<close>. While two readings are less than half a period apart,
  \<open>ticks_diff\<close> is their difference (lemma \<open>ticks_diff_plain\<close>).
\<close>

definition TICKS_PERIOD :: int where
  "TICKS_PERIOD = 2 ^ 30"

definition ticks_ms :: "int \<Rightarrow> int" where
  "ticks_ms t = t mod TICKS_PERIOD"

definition ticks_diff :: "int \<Rightarrow> int \<Rightarrow> int" where
  "ticks_diff a b =
     (a - b + TICKS_PERIOD div 2) mod TICKS_PERIOD - TICKS_PERIOD div 2"

text \<open>
  What the platform answers during one call of \<open>send_target_coords\<close>: the three
  readings of \<open>time.ticks_ms()\<close> the body can make (lines 250, 257 and 259), and
  whether \<open>uart.write\<close> returns rather than raises.
\<close>

record platform =
  ticks_at_entry :: int
  ticks_at_start :: int
  ticks_at_elapsed :: int
  uart_write_ok :: bool

subsection \<open>Geometry (section 5)\<close>

text \<open>
  A blob of the detector: its bounding rectangle \<open>blob.rect()\<close>, its number of filled
  pixels \<open>blob.pixels()\<close> and its perimeter \<open>blob.perimeter()\<close>. The detector is the
  OpenMV library, not the script. Its accessor \<open>blob.area()\<close> is the area of the
  bounding rectangle, \<open>w * h\<close>; this is the accessor the script reads into its variable
  \<open>blob_pixels\<close> (line 136). The script never reads \<open>blob.pixels()\<close>.
\<close>

record blob =
  rect :: "int \<times> int \<times> int \<times> int"
  pixels :: int
  perimeter :: int

definition blob_area :: "blob \<Rightarrow> int" where
  "blob_area b = (case rect b of (x, y, w, h) \<Rightarrow> w * h)"

definition get_approximate_corners :: "blob option \<Rightarrow> (int \<times> int) list option" where
  "get_approximate_corners boundary_rect =
     (case boundary_rect of
        None \<Rightarrow> None
      | Some r \<Rightarrow>
          (case rect r of
             (x, y, w, h) \<Rightarrow> Some [(x, y), (x + w, y), (x + w, y + h), (x, y + h)]))"

definition calculate_perspective_correction :: "(int \<times> int) list option \<Rightarrow> int \<times> int" where
  "calculate_perspective_correction corners =
     (case corners of
        None \<Rightarrow> (SCREEN_CENTER_X, SCREEN_CENTER_Y)
      | Some cs \<Rightarrow>
          if length cs \<noteq> 4 then (SCREEN_CENTER_X, SCREEN_CENTER_Y)
          else
            let x_sum = sum_list (map fst cs);
                y_sum = sum_list (map snd cs);
                simple_center_x = x_sum div 4;
                simple_center_y = y_sum div 4;
                x1 = fst (cs ! 0); y1 = snd (cs ! 0);
                x2 = fst (cs ! 2); y2 = snd (cs ! 2);
                x3 = fst (cs ! 1); y3 = snd (cs ! 1);
                x4 = fst (cs ! 3); y4 = snd (cs ! 3);
                d = (x1 - x2) * (y3 - y4) - (y1 - y2) * (x3 - x4)
            in if d = 0 then (simple_center_x, simple_center_y)
               else
                 let px = real_of_int ((x1 * y2 - y1 * x2) * (x3 - x4)
                            - (x1 - x2) * (x3 * y4 - y3 * x4)) / real_of_int d;
                     py = real_of_int ((x1 * y2 - y1 * x2) * (y3 - y4)
                            - (y1 - y2) * (x3 * y4 - y3 * x4)) / real_of_int d
                 in (py_int px, py_int py))"

definition calculate_circle_params :: "int option \<Rightarrow> int option \<Rightarrow> int \<times> int" where
  "calculate_circle_params rect_width rect_height =
     (case (rect_width, rect_height) of
        (Some w, Some h) \<Rightarrow>
          if w \<le> 0 \<or> h \<le> 0 then (30, 20)
          else (0, max 3 (py_int (real_of_int h * 0.2891)))
      | _ \<Rightarrow> (30, 20))"

definition get_ellipse_point ::
  "int option \<Rightarrow> int option \<Rightarrow> int option \<Rightarrow> int option \<Rightarrow> real \<Rightarrow> real \<Rightarrow> int \<times> int" where
  "get_ellipse_point center_x center_y a b angle rotation =
     (case (center_x, center_y, a, b) of
        (Some cx, Some cy, Some a0, Some b0) \<Rightarrow>
          let a1 = max 1 a0;
              b1 = max 1 b0;
              x = real_of_int a1 * cos angle;
              y = real_of_int b1 * sin angle;
              rotated_x = x * cos rotation - y * sin rotation;
              rotated_y = x * sin rotation + y * cos rotation
          in (py_int (real_of_int cx + rotated_x), py_int (real_of_int cy + rotated_y))
      | _ \<Rightarrow> (SCREEN_CENTER_X, SCREEN_CENTER_Y))"

subsection \<open>The candidate validator\<close>

text \<open>
  The body of the \<open>for\<close> loop of \<open>find_target_boundary_rect\<close>: \<open>None\<close> where the
  loop goes on to the next blob without appending (a \<open>continue\<close>, or the last
  condition failing), \<open>Some (blob, rect_area)\<close> where it appends that pair.
\<close>

definition check_blob :: "blob \<Rightarrow> (blob \<times> int) option" where
  "check_blob b =
     (case rect b of
        (rect_x, rect_y, rect_w, rect_h) \<Rightarrow>
          if rect_w = 0 \<or> rect_h = 0 then None
          else if rect_x = 0 \<or> rect_y = 0 \<or> rect_x + rect_w \<ge> SCREEN_WIDTH
                  \<or> rect_y + rect_h \<ge> SCREEN_HEIGHT then None
          else
            let rect_area = rect_w * rect_h;
                blob_pixels = blob_area b;
                density = (if rect_area > 0
                           then real_of_int blob_pixels / real_of_int rect_area else 0);
                is_very_large =
                  (real_of_int rect_area > real_of_int (SCREEN_WIDTH * SCREEN_HEIGHT) * 0.75)
            in if is_very_large \<and> density > 0.6 then None
               else
                 let aspect_ratio =
                       real_of_int (max rect_w rect_h) / real_of_int (min rect_w rect_h);
                     p = perimeter b;
                     shape_factor =
                       (if blob_pixels > 0
                        then real_of_int (p * p) / (4 * pi * real_of_int blob_pixels) else 0)
                 in if aspect_ratio < 4 \<and> rect_area > 1000
                       \<and> real_of_int rect_area < real_of_int (SCREEN_WIDTH * SCREEN_HEIGHT) * 0.95
                       \<and> shape_factor > 1.1
                    then Some (b, rect_area) else None)"

text \<open>The loop itself, with the list \<open>candidates\<close> as accumulator.\<close>

fun collect_candidates :: "blob list \<Rightarrow> (blob \<times> int) list \<Rightarrow> (blob \<times> int) list" where
  "collect_candidates [] candidates = candidates"
| "collect_candidates (b # blobs) candidates =
     collect_candidates blobs
       (case check_blob b of None \<Rightarrow> candidates | Some c \<Rightarrow> candidates @ [c])"

text \<open>
  Python's \<open>max(xs, key=f)\<close> on a non-empty list: one pass that replaces the item
  kept so far only by an item whose key is strictly greater.
\<close>

fun py_max_from :: "('a \<Rightarrow> int) \<Rightarrow> 'a \<Rightarrow> 'a list \<Rightarrow> 'a" where
  "py_max_from key best [] = best"
| "py_max_from key best (x # xs) =
     py_max_from key (if key x > key best then x else best) xs"

definition find_target_boundary_rect :: "blob list \<Rightarrow> blob option" where
  "find_target_boundary_rect blobs =
     (if blobs = [] then None
      else
        (case collect_candidates blobs [] of
           [] \<Rightarrow> None
         | c # cs \<Rightarrow> Some (fst (py_max_from snd c cs))))"

text \<open>
  The rejection pipeline in the words of the specification, to compare the loop with:
  the rectangle of a candidate, its area, and the six reasons to reject it. The pixel
  count of the specification is \<open>pixels\<close>.
\<close>

definition rect_area_of :: "blob \<Rightarrow> int" where
  "rect_area_of b = (case rect b of (x, y, w, h) \<Rightarrow> w * h)"

definition touches_edge :: "blob \<Rightarrow> bool" where
  "touches_edge b =
     (case rect b of
        (x, y, w, h) \<Rightarrow> x = 0 \<or> y = 0 \<or> x + w \<ge> SCREEN_WIDTH \<or> y + h \<ge> SCREEN_HEIGHT)"

definition survives :: "blob \<Rightarrow> bool" where
  "survives b =
     (case rect b of
        (x, y, w, h) \<Rightarrow>
          \<not> (w = 0 \<or> h = 0)
          \<and> \<not> touches_edge b
          \<and> \<not> (real_of_int (w * h) > 0.75 * real_of_int (SCREEN_WIDTH * SCREEN_HEIGHT)
                 \<and> real_of_int (pixels b) / real_of_int (w * h) > 0.6)
          \<and> \<not> (real_of_int (max w h) / real_of_int (min w h) \<ge> 4)
          \<and> (1000 < w * h
               \<and> real_of_int (w * h) < 0.95 * real_of_int (SCREEN_WIDTH * SCREEN_HEIGHT))
          \<and> \<not> (real_of_int (perimeter b * perimeter b) / (4 * pi * real_of_int (pixels b))
                 \<le> 1.1))"

text \<open>
  What the loop computes instead: the same pipeline with the area of the bounding
  rectangle in the place of the pixel count.
\<close>

definition accepted :: "blob \<Rightarrow> bool" where
  "accepted b = survives (b\<lparr>pixels := blob_area b\<rparr>)"

subsection \<open>The protocol encoder\<close>

text \<open>
  \<open>send_target_coords\<close> in four parts: the adjustment of the phase angle (lines 261 to
  264), the circle branch (lines 255 to 273), the other branch (lines 275 to 278) and
  the common end (lines 280 to 284). The function returns a pair that is
  \<open>(None, None)\<close> or two integers: \<open>None\<close> and \<open>Some (x, y)\<close> here. With arguments
  of the types the main loop passes, the only statement of the body that can raise is
  \<open>uart.write\<close>; as for \<open>struct.error\<close>, the \<open>except\<close> clause answers
  \<open>(None, None)\<close> and keeps the assignments made before. The angle and the smoothing
  of the circle branch are exact here; the floats of the script round, so the scan
  point of the script can differ from the one of the model by a pixel, and its angle
  in the last bits.
\<close>

definition wrap_angle_diff :: "real \<Rightarrow> real" where
  "wrap_angle_diff angle_diff =
     (if angle_diff > pi then angle_diff - 2 * pi
      else if angle_diff < - pi then angle_diff + 2 * pi
      else angle_diff)"

definition advance_angle :: "real \<Rightarrow> real \<Rightarrow> real" where
  "advance_angle ideal_angle angle =
     py_fmod (angle + wrap_angle_diff (ideal_angle - angle) * 0.3) (2 * pi)"

definition ideal_angle_at :: "int \<Rightarrow> real" where
  "ideal_angle_at elapsed_time =
     real_of_int (elapsed_time mod target_circle_time) / real_of_int target_circle_time
       * 2 * pi"

definition clamp255 :: "int \<Rightarrow> int" where
  "clamp255 v = min 255 (max 0 v)"

definition circle_branch ::
  "platform \<Rightarrow> int \<times> int \<Rightarrow> int
     \<Rightarrow> (int option \<times> int option \<times> real option) option \<Rightarrow> globals
     \<Rightarrow> (int \<times> int) \<times> globals" where
  "circle_branch env center radius ellipse_params g =
     (let center_x = fst center;
          center_y = snd center;
          (start_time, g1) =
            (case circle_start_time g of
               None \<Rightarrow>
                 (ticks_at_start env,
                  g\<lparr>circle_start_time := Some (ticks_at_start env), current_angle := 0\<rparr>)
             | Some t \<Rightarrow> (t, g));
          elapsed_time = ticks_diff (ticks_at_elapsed env) start_time;
          ideal_angle = ideal_angle_at elapsed_time;
          g2 = g1\<lparr>current_angle := advance_angle ideal_angle (current_angle g1)\<rparr>;
          (a, b, rotation) =
            (case ellipse_params of
               Some (Some a, Some b, Some rotation) \<Rightarrow> (a, b, rotation)
             | _ \<Rightarrow> (radius, radius, 0));
          (target_x0, target_y0) =
            get_ellipse_point (Some center_x) (Some center_y) (Some a) (Some b)
              (current_angle g2) rotation;
          (target_x, target_y) =
            (case last_target_point g2 of
               None \<Rightarrow> (target_x0, target_y0)
             | Some (last_x, last_y) \<Rightarrow>
                 (py_int (real_of_int target_x0 * (1 - smooth_factor)
                            + real_of_int last_x * smooth_factor),
                  py_int (real_of_int target_y0 * (1 - smooth_factor)
                            + real_of_int last_y * smooth_factor)));
          g3 = g2\<lparr>last_target_point := Some (target_x, target_y)\<rparr>
      in ((clamp255 target_x, clamp255 target_y), g3))"

definition aim_branch :: "int option \<Rightarrow> int option \<Rightarrow> globals \<Rightarrow> (int \<times> int) \<times> globals" where
  "aim_branch cx cy g =
     (let (cx1, cy1) =
            (case (cx, cy) of
               (Some x, Some y) \<Rightarrow> (x, y)
             | _ \<Rightarrow> (SCREEN_CENTER_X, SCREEN_CENTER_Y))
      in ((clamp255 cx1, clamp255 cy1),
          g\<lparr>circle_start_time := None, last_target_point := None\<rparr>))"

definition transmit :: "platform \<Rightarrow> int \<Rightarrow> int \<times> int \<Rightarrow> globals \<Rightarrow> (int \<times> int) option \<times> globals" where
  "transmit env current_time final g =
     (let combined_coord = push_bit 8 (fst final) OR snd final
      in case struct_pack_H combined_coord of
           None \<Rightarrow> (None, g)
         | Some payload \<Rightarrow>
             if uart_write_ok env
             then (Some final,
                   g\<lparr>uart_tx := uart_tx g @ [TARGET_LOCKED_HEADER @ payload @ TARGET_LOCKED_FOOTER],
                     last_uart_send_time := current_time\<rparr>)
             else (None, g))"

definition send_target_coords ::
  "platform \<Rightarrow> int option \<Rightarrow> int option \<Rightarrow> string option \<Rightarrow> (int \<times> int) option
     \<Rightarrow> int option \<Rightarrow> (int option \<times> int option \<times> real option) option \<Rightarrow> globals
     \<Rightarrow> (int \<times> int) option \<times> globals" where
  "send_target_coords env cx cy mode center radius ellipse_params g =
     (let current_time = ticks_at_entry env
      in if ticks_diff current_time (last_uart_send_time g) < current_send_interval_ms g
         then (None, g)
         else
           let (final, g1) =
                 (case (mode = Some ''circle'', center, radius) of
                    (True, Some c, Some r) \<Rightarrow> circle_branch env c r ellipse_params g
                  | _ \<Rightarrow> aim_branch cx cy g)
           in transmit env current_time final g1)"

text \<open>The condition of line 254, and the condition of line 251 (the rate gate).\<close>

definition is_circle_call :: "string option \<Rightarrow> (int \<times> int) option \<Rightarrow> int option \<Rightarrow> bool" where
  "is_circle_call mode center radius =
     (mode = Some ''circle'' \<and> center \<noteq> None \<and> radius \<noteq> None)"

definition gate_closed :: "platform \<Rightarrow> globals \<Rightarrow> bool" where
  "gate_closed env g =
     (ticks_diff (ticks_at_entry env) (last_uart_send_time g) < current_send_interval_ms g)"

subsection \<open>Mode timing and the command handler of the main loop\<close>

definition set_send_interval_for_mode :: "work_state \<Rightarrow> globals \<Rightarrow> globals" where
  "set_send_interval_for_mode mode g =
     (if mode = STATE_CIRCLE_TRACKING
      then g\<lparr>current_send_interval_ms := CIRCLE_SEND_INTERVAL_MS\<rparr>
      else g\<lparr>current_send_interval_ms := STANDARD_SEND_INTERVAL_MS\<rparr>)"

text \<open>Lines 348 to 363: what the main loop does with the command byte it has read.\<close>

definition handle_command :: "byte \<Rightarrow> globals \<Rightarrow> globals" where
  "handle_command command g =
     (if command \<in> set COMMAND_MAP then
        if command = CMD_AIM_BULLSEYE then
          set_send_interval_for_mode STATE_AIM_BULLSEYE
            (g\<lparr>current_state := STATE_AIM_BULLSEYE\<rparr>)
        else if command = CMD_CIRCLE_TRACKING then
          (set_send_interval_for_mode STATE_CIRCLE_TRACKING
             (g\<lparr>current_state := STATE_CIRCLE_TRACKING\<rparr>))
            \<lparr>circle_start_time := None, current_angle := 0, last_target_point := None\<rparr>
        else if command = CMD_IDLE then g\<lparr>current_state := STATE_IDLE\<rparr>
        else g
      else g)"

subsection \<open>Runs of the controller\<close>

text \<open>
  A run is a sequence of events: a command byte handled by the main loop, or a call
  of \<open>send_target_coords\<close>. A call carries the time (in milliseconds, not wrapped) of
  each reading of the clock the body can make, whether \<open>uart.write\<close> succeeds, and the
  arguments. \<open>emissions\<close> lists, for every packet a run writes, the time of the call
  that wrote it and the interval configured at that call.
\<close>

record send_args =
  arg_cx :: "int option"
  arg_cy :: "int option"
  arg_mode :: "string option"
  arg_center :: "(int \<times> int) option"
  arg_radius :: "int option"
  arg_ellipse_params :: "(int option \<times> int option \<times> real option) option"

datatype event = Command byte | Send int int int bool send_args

definition platform_at :: "int \<Rightarrow> int \<Rightarrow> int \<Rightarrow> bool \<Rightarrow> platform" where
  "platform_at t t_start t_elapsed ok =
     \<lparr> ticks_at_entry = ticks_ms t,
       ticks_at_start = ticks_ms t_start,
       ticks_at_elapsed = ticks_ms t_elapsed,
       uart_write_ok = ok \<rparr>"

definition send_with :: "platform \<Rightarrow> send_args \<Rightarrow> globals \<Rightarrow> (int \<times> int) option \<times> globals" where
  "send_with env a g =
     send_target_coords env (arg_cx a) (arg_cy a) (arg_mode a) (arg_center a)
       (arg_radius a) (arg_ellipse_params a) g"

fun step :: "globals \<Rightarrow> event \<Rightarrow> globals" where
  "step g (Command c) = handle_command c g"
| "step g (Send t t_start t_elapsed ok a) =
     snd (send_with (platform_at t t_start t_elapsed ok) a g)"

fun run :: "globals \<Rightarrow> event list \<Rightarrow> globals" where
  "run g [] = g"
| "run g (e # es) = run (step g e) es"

definition written :: "globals \<Rightarrow> globals \<Rightarrow> byte list list" where
  "written g g' = drop (length (uart_tx g)) (uart_tx g')"

fun emissions :: "globals \<Rightarrow> event list \<Rightarrow> (int \<times> int) list" where
  "emissions g [] = []"
| "emissions g (Command c # es) = emissions (step g (Command c)) es"
| "emissions g (Send t t_start t_elapsed ok a # es) =
     map (\<lambda>p. (t, current_send_interval_ms g))
       (written g (step g (Send t t_start t_elapsed ok a)))
     @ emissions (step g (Send t t_start t_elapsed ok a)) es"

fun send_times :: "event list \<Rightarrow> int list" where
  "send_times [] = []"
| "send_times (Command c # es) = send_times es"
| "send_times (Send t t_start t_elapsed ok a # es) = t # send_times es"

fun spaced :: "int \<Rightarrow> (int \<times> int) list \<Rightarrow> bool" where
  "spaced t0 [] = True"
| "spaced t0 ((t, interval) # l) =
     (interval \<le> t - t0 \<and> (interval = 30 \<or> interval = 50) \<and> spaced t l)"

subsection \<open>Definitions used to state the properties\<close>

text \<open>
  \<open>circleRadiusFromRect\<close> as the specification words it:
  \<open>max(3, round(height * k))\<close>, with the constant \<open>k\<close> of the script.
\<close>

definition circle_radius_spec :: "int \<Rightarrow> int" where
  "circle_radius_spec height = max 3 (round (real_of_int height * 0.2891))"

text \<open>
  A point with real coordinates lies on the line through two corners: the two
  differences are parallel (their cross product is zero).
\<close>

definition on_line :: "real \<times> real \<Rightarrow> int \<times> int \<Rightarrow> int \<times> int \<Rightarrow> bool" where
  "on_line p a b =
     ((fst p - real_of_int (fst a)) * real_of_int (snd b - snd a)
        = (snd p - real_of_int (snd a)) * real_of_int (fst b - fst a))"

text \<open>
  The interval that belongs to the state, for the two states that send.
\<close>

definition mode_interval_ok :: "globals \<Rightarrow> bool" where
  "mode_interval_ok g =
     ((current_state g = STATE_AIM_BULLSEYE \<longrightarrow> current_send_interval_ms g = 30)
      \<and> (current_state g = STATE_CIRCLE_TRACKING \<longrightarrow> current_send_interval_ms g = 50))"

subsection \<open>Example inputs\<close>

text \<open>Concrete calls, states, blobs and runs on which the theorems below are evaluated.\<close>

definition example_platform :: platform where
  "example_platform =
     \<lparr> ticks_at_entry = 1000, ticks_at_start = 1000, ticks_at_elapsed = 1000,
       uart_write_ok = True \<rparr>"

definition example_aim_args :: send_args where
  "example_aim_args =
     \<lparr> arg_cx = Some 300, arg_cy = Some (- 5), arg_mode = None, arg_center = None,
       arg_radius = None, arg_ellipse_params = None \<rparr>"

definition example_circle_args :: send_args where
  "example_circle_args =
     \<lparr> arg_cx = Some 0, arg_cy = Some 0, arg_mode = Some ''circle'',
       arg_center = Some (120, 80), arg_radius = Some 20, arg_ellipse_params = None \<rparr>"

definition example_tracking :: globals where
  "example_tracking =
     run initial_globals
       [Command CMD_CIRCLE_TRACKING, Send 100 100 100 True example_circle_args]"

text \<open>
  Blobs for the validator: one touching the left edge, two of equal rectangle area,
  and a large one that is sparsely filled (10000 pixels in a rectangle of 29000).
\<close>

definition example_edge_blob :: blob where
  "example_edge_blob = \<lparr>rect = (0, 10, 150, 100), pixels = 3000, perimeter = 900\<rparr>"

definition example_target :: blob where
  "example_target = \<lparr>rect = (70, 40, 100, 80), pixels = 2000, perimeter = 720\<rparr>"

definition example_second :: blob where
  "example_second = \<lparr>rect = (10, 10, 80, 100), pixels = 2000, perimeter = 720\<rparr>"

definition example_sparse :: blob where
  "example_sparse = \<lparr>rect = (10, 10, 200, 145), pixels = 10000, perimeter = 690\<rparr>"

text \<open>
  A run for the rate gate: aim mode with sends at 40, 60 and 75 ms, then circle
  tracking with sends at 110 and 130 ms.
\<close>

definition example_events :: "event list" where
  "example_events =
     [Command CMD_AIM_BULLSEYE,
      Send 40 40 40 True example_aim_args,
      Send 60 60 60 True example_aim_args,
      Send 75 75 75 True example_aim_args,
      Command CMD_CIRCLE_TRACKING,
      Send 110 110 110 True example_circle_args,
      Send 130 130 130 True example_circle_args]"

section \<open>Properties\<close>

subsection \<open>The protocol encoder: helper lemmas\<close>

lemma clamp255_range: "0 \<le> clamp255 v \<and> clamp255 v \<le> 255"
  by (simp add: clamp255_def)

lemma shift_or_bytes:
  assumes "0 \<le> x" "x \<le> 255" "0 \<le> y" "y \<le> 255"
  shows "push_bit 8 x OR y = x * 256 + (y::int)"
proof -
  have ty: "take_bit 8 y = y"
    using assms by (simp add: take_bit_int_eq_self)
  have "push_bit 8 x OR y = concat_bit 8 y x"
    by (simp add: concat_bit_def ty or.commute)
  also have "\<dots> = take_bit 8 y + push_bit 8 x"
    by (rule concat_bit_eq)
  finally show ?thesis
    by (simp add: ty push_bit_eq_mult)
qed

lemma struct_pack_H_bytes:
  assumes "0 \<le> x" "x \<le> 255" "0 \<le> y" "y \<le> 255"
  shows "struct_pack_H (push_bit 8 x OR y) = Some [word_of_int x, word_of_int y]"
proof -
  have v: "push_bit 8 x OR y = x * 256 + y"
    using assms by (rule shift_or_bytes)
  have hi: "drop_bit 8 (x * 256 + y) = x"
    using assms by (simp add: drop_bit_eq_div)
  have lo: "(word_of_int (x * 256 + y) :: byte) = word_of_int y"
    by (subst word_of_int_eq_iff) (simp add: take_bit_eq_mod)
  have rng: "0 \<le> x * 256 + y \<and> x * 256 + y < 65536"
    using assms by simp
  have "struct_pack_H (x * 256 + y)
          = Some [word_of_int (drop_bit 8 (x * 256 + y)), word_of_int (x * 256 + y)]"
    by (simp only: struct_pack_H_def rng if_True simp_thms)
  then show ?thesis
    by (simp only: v hi lo)
qed

lemma transmit_clamped:
  "transmit env t (clamp255 x, clamp255 y) g =
     (if uart_write_ok env
      then (Some (clamp255 x, clamp255 y),
            g\<lparr>uart_tx := uart_tx g @ [[0x3C, 0x3B, word_of_int (clamp255 x),
                                        word_of_int (clamp255 y), 0x01, 0x01]],
              last_uart_send_time := t\<rparr>)
      else (None, g))"
  using clamp255_range [of x] clamp255_range [of y]
  by (simp add: transmit_def struct_pack_H_bytes TARGET_LOCKED_HEADER_def
      TARGET_LOCKED_FOOTER_def)

lemma aim_branch_eq:
  "aim_branch cx cy g =
     ((clamp255 (fst (case (cx, cy) of (Some x, Some y) \<Rightarrow> (x, y)
                       | _ \<Rightarrow> (SCREEN_CENTER_X, SCREEN_CENTER_Y))),
       clamp255 (snd (case (cx, cy) of (Some x, Some y) \<Rightarrow> (x, y)
                       | _ \<Rightarrow> (SCREEN_CENTER_X, SCREEN_CENTER_Y)))),
      g\<lparr>circle_start_time := None, last_target_point := None\<rparr>)"
  by (simp add: aim_branch_def split: option.splits prod.splits)

lemma circle_branch_shape:
  "\<exists>x y g3. circle_branch env c r ep g = ((clamp255 x, clamp255 y), g3)
     \<and> last_target_point g3 = Some (x, y)
     \<and> uart_tx g3 = uart_tx g
     \<and> last_uart_send_time g3 = last_uart_send_time g
     \<and> current_send_interval_ms g3 = current_send_interval_ms g
     \<and> current_state g3 = current_state g"
  by (simp add: circle_branch_def Let_def split: option.splits prod.splits)

lemma send_target_coords_unfold:
  "send_target_coords env cx cy mode center radius ep g =
     (if gate_closed env g then (None, g)
      else if is_circle_call mode center radius
      then transmit env (ticks_at_entry env)
             (fst (circle_branch env (the center) (the radius) ep g))
             (snd (circle_branch env (the center) (the radius) ep g))
      else transmit env (ticks_at_entry env) (fst (aim_branch cx cy g))
             (snd (aim_branch cx cy g)))"
  by (auto simp: send_target_coords_def gate_closed_def is_circle_call_def Let_def
      split: prod.splits option.splits bool.splits)

lemma example_aim_send:
  "send_target_coords example_platform (Some 300) (Some (- 5)) None None None None
       initial_globals
     = (Some (255, 0),
        initial_globals\<lparr>uart_tx := [[0x3C, 0x3B, 0xFF, 0x00, 0x01, 0x01]],
                         last_uart_send_time := 1000\<rparr>)"
  by (simp add: send_target_coords_unfold gate_closed_def is_circle_call_def
      example_platform_def initial_globals_def ticks_diff_def TICKS_PERIOD_def
      STANDARD_SEND_INTERVAL_MS_def aim_branch_def clamp255_def transmit_def
      struct_pack_H_def TARGET_LOCKED_HEADER_def TARGET_LOCKED_FOOTER_def)

subsection \<open>C1: the frame of an emitted packet\<close>

text \<open>
  Claim C1, as amended. Every packet \<open>send_target_coords\<close> writes is the 6-byte frame
  made of the header \<open>0x3C 0x3B\<close>, the two bytes of \<open>struct.pack('>H', (x << 8) | y)\<close>
  and the trailer \<open>0x01 0x01\<close>, where \<open>x\<close> and \<open>y\<close> are the two coordinates of the
  point, each clamped to \<open>[0, 255]\<close> on its own: bytes 2 and 3 are the clamped \<open>x\<close> and the
  clamped \<open>y\<close>. The point is \<open>(cx, cy)\<close> (the frame centre when one of them is \<open>None\<close>)
  in a call that is not a circle call, and the smoothed scan point (stored in
  \<open>last_target_point\<close>) in a circle call; no bound on the point is assumed. A call that
  writes nothing returns \<open>(None, None)\<close>.
\<close>

theorem target_packet_frame:
  assumes "send_target_coords env cx cy mode center radius ep g = (r, g')"
  shows "(r = None \<and> uart_tx g' = uart_tx g)
       \<or> (\<exists>x y pkt. r = Some (clamp255 x, clamp255 y)
             \<and> uart_tx g' = uart_tx g @ [pkt]
             \<and> pkt = TARGET_LOCKED_HEADER @ [pkt ! 2, pkt ! 3] @ TARGET_LOCKED_FOOTER
             \<and> struct_pack_H (push_bit 8 (clamp255 x) OR clamp255 y) = Some [pkt ! 2, pkt ! 3]
             \<and> pkt = [0x3C, 0x3B, word_of_int (clamp255 x), word_of_int (clamp255 y),
                      0x01, 0x01]
             \<and> uint (pkt ! 2) = clamp255 x \<and> uint (pkt ! 3) = clamp255 y
             \<and> length pkt = 6
             \<and> (if is_circle_call mode center radius
                 then last_target_point g' = Some (x, y)
                 else (x, y) = (case (cx, cy) of
                                  (Some a, Some b) \<Rightarrow> (a, b)
                                | _ \<Rightarrow> (SCREEN_CENTER_X, SCREEN_CENTER_Y))))"
proof (cases "gate_closed env g \<or> \<not> uart_write_ok env")
  case True
  have "r = None \<and> uart_tx g' = uart_tx g"
  proof (cases "gate_closed env g")
    case True
    then show ?thesis
      using assms by (simp add: send_target_coords_unfold)
  next
    case False
    with True have nok: "\<not> uart_write_ok env" by simp
    obtain x y g3 where c: "circle_branch env (the center) (the radius) ep g
        = ((clamp255 x, clamp255 y), g3)" and u: "uart_tx g3 = uart_tx g"
      using circle_branch_shape by blast
    show ?thesis
      using assms False nok c u
      by (auto simp: send_target_coords_unfold transmit_clamped aim_branch_eq
          split: if_splits)
  qed
  then show ?thesis by simp
next
  case False
  then have open_gate: "\<not> gate_closed env g" and ok: "uart_write_ok env"
    by simp_all
  have bytes: "uint (word_of_int (clamp255 v) :: byte) = clamp255 v" for v
    using clamp255_range [of v] by (simp add: uint_word_of_int take_bit_int_eq_self)
  show ?thesis
  proof (cases "is_circle_call mode center radius")
    case True
    obtain x y g3 where c: "circle_branch env (the center) (the radius) ep g
        = ((clamp255 x, clamp255 y), g3)"
      and l: "last_target_point g3 = Some (x, y)" and u: "uart_tx g3 = uart_tx g"
      using circle_branch_shape by blast
    have "r = Some (clamp255 x, clamp255 y)
        \<and> g' = g3\<lparr>uart_tx := uart_tx g3 @ [[0x3C, 0x3B, word_of_int (clamp255 x),
                                              word_of_int (clamp255 y), 0x01, 0x01]],
                  last_uart_send_time := ticks_at_entry env\<rparr>"
      using assms open_gate ok True c
      by (simp add: send_target_coords_unfold transmit_clamped)
    then show ?thesis
      using True l u clamp255_range [of x] clamp255_range [of y]
      by (intro disjI2 exI [of _ x] exI [of _ y]
          exI [of _ "[0x3C, 0x3B, word_of_int (clamp255 x), word_of_int (clamp255 y), 0x01, 0x01]"])
        (simp add: bytes struct_pack_H_bytes TARGET_LOCKED_HEADER_def TARGET_LOCKED_FOOTER_def)
  next
    case False
    define p where "p = (case (cx, cy) of (Some a, Some b) \<Rightarrow> (a, b)
                          | _ \<Rightarrow> (SCREEN_CENTER_X, SCREEN_CENTER_Y))"
    have "r = Some (clamp255 (fst p), clamp255 (snd p))
        \<and> uart_tx g' = uart_tx g @ [[0x3C, 0x3B, word_of_int (clamp255 (fst p)),
                                              word_of_int (clamp255 (snd p)), 0x01, 0x01]]"
      using assms open_gate ok False
      by (auto simp: send_target_coords_unfold transmit_clamped aim_branch_eq p_def)
    then show ?thesis
      using False clamp255_range [of "fst p"] clamp255_range [of "snd p"]
      by (intro disjI2 exI [of _ "fst p"] exI [of _ "snd p"]
          exI [of _ "[0x3C, 0x3B, word_of_int (clamp255 (fst p)), word_of_int (clamp255 (snd p)), 0x01, 0x01]"])
        (simp add: bytes struct_pack_H_bytes TARGET_LOCKED_HEADER_def TARGET_LOCKED_FOOTER_def
          p_def)
  qed
qed

theorem target_packet_frame_witness:
  "\<exists>x y pkt. (x, y) = (300, - 5)
     \<and> fst (send_target_coords example_platform (Some 300) (Some (- 5)) None None None None
              initial_globals) = Some (clamp255 x, clamp255 y)
     \<and> uart_tx (snd (send_target_coords example_platform (Some 300) (Some (- 5)) None None
              None None initial_globals)) = uart_tx initial_globals @ [pkt]
     \<and> pkt = [0x3C, 0x3B, word_of_int (clamp255 x), word_of_int (clamp255 y), 0x01, 0x01]
     \<and> length pkt = 6"
  using target_packet_frame [OF example_aim_send]
  unfolding example_aim_send
  by (auto simp: is_circle_call_def initial_globals_def TARGET_LOCKED_HEADER_def
      TARGET_LOCKED_FOOTER_def)

text \<open>
  The claim as stated speaks of a 7-byte frame. The packet written for the point
  \<open>(300, -5)\<close> has the six bytes \<open>3C 3B FF 00 01 01\<close>.
\<close>

theorem target_packet_seven_bytes_counterexample:
  "uart_tx (snd (send_target_coords example_platform (Some 300) (Some (- 5)) None None None
       None initial_globals)) = [[0x3C, 0x3B, 0xFF, 0x00, 0x01, 0x01]]
   \<and> length (last (uart_tx (snd (send_target_coords example_platform (Some 300) (Some (- 5))
       None None None None initial_globals)))) = 6
   \<and> length (last (uart_tx (snd (send_target_coords example_platform (Some 300) (Some (- 5))
       None None None None initial_globals)))) \<noteq> 7"
  unfolding example_aim_send by (simp add: initial_globals_def)

subsection \<open>C5: a suppressed call changes nothing\<close>

text \<open>
  Claim C5. A call of \<open>send_target_coords\<close> with
  \<open>ticks_diff(now, last_uart_send_time) < current_send_interval_ms\<close> returns
  \<open>(None, None)\<close> and leaves every module-level variable and the transport as they
  were. For every call: when no packet is written, the result is \<open>(None, None)\<close>
  and \<open>last_uart_send_time\<close> keeps its value; when a packet is written, exactly one is,
  the gate was open, and \<open>last_uart_send_time\<close> becomes the reading of the clock taken at
  the entry of the call.
\<close>

theorem gate_suppression:
  "(ticks_diff (ticks_at_entry env) (last_uart_send_time g) < current_send_interval_ms g
      \<longrightarrow> send_target_coords env cx cy mode center radius ep g = (None, g))
   \<and> (case send_target_coords env cx cy mode center radius ep g of
        (r, g') \<Rightarrow>
          if uart_tx g' = uart_tx g
          then r = None \<and> last_uart_send_time g' = last_uart_send_time g
          else r \<noteq> None \<and> last_uart_send_time g' = ticks_at_entry env
               \<and> (\<exists>pkt. uart_tx g' = uart_tx g @ [pkt])
               \<and> \<not> ticks_diff (ticks_at_entry env) (last_uart_send_time g)
                     < current_send_interval_ms g)"
proof -
  obtain x y g3 where c: "circle_branch env (the center) (the radius) ep g
      = ((clamp255 x, clamp255 y), g3)" and u: "uart_tx g3 = uart_tx g"
    and l: "last_uart_send_time g3 = last_uart_send_time g"
    using circle_branch_shape by blast
  show ?thesis
    using c u l
    by (auto simp: send_target_coords_unfold gate_closed_def transmit_clamped aim_branch_eq)
qed

theorem gate_suppression_witness:
  "ticks_diff (ticks_at_entry example_platform) 990 < 30
   \<and> send_target_coords example_platform (Some 300) (Some (- 5)) None None None None
        (initial_globals\<lparr>last_uart_send_time := 990\<rparr>)
      = (None, initial_globals\<lparr>last_uart_send_time := 990\<rparr>)"
  using gate_suppression [of example_platform "initial_globals\<lparr>last_uart_send_time := 990\<rparr>"
      "Some 300" "Some (- 5)" None None None None]
  by (simp add: example_platform_def initial_globals_def ticks_diff_def TICKS_PERIOD_def
      STANDARD_SEND_INTERVAL_MS_def)

subsection \<open>C10: the scan state is cleared by the first permitted aim-mode send\<close>

text \<open>
  Claim C10. In a call of \<open>send_target_coords\<close> that is not a circle call: when the gate
  is open (in particular whenever a packet is written), \<open>circle_start_time\<close> and
  \<open>last_target_point\<close> are \<open>None\<close> afterwards; when the gate is closed, both keep their
  values. The handler of the command \<open>0xA1\<close> does not touch them: they are cleared by
  the first aim-mode send the gate lets through, not by the mode switch.
\<close>

theorem aim_send_clears_scan_state:
  assumes "\<not> is_circle_call mode center radius"
    and "send_target_coords env cx cy mode center radius ep g = (r, g')"
  shows "(\<not> ticks_diff (ticks_at_entry env) (last_uart_send_time g) < current_send_interval_ms g
            \<longrightarrow> circle_start_time g' = None \<and> last_target_point g' = None)
       \<and> (uart_tx g' \<noteq> uart_tx g
            \<longrightarrow> circle_start_time g' = None \<and> last_target_point g' = None)
       \<and> (ticks_diff (ticks_at_entry env) (last_uart_send_time g) < current_send_interval_ms g
            \<longrightarrow> circle_start_time g' = circle_start_time g
                \<and> last_target_point g' = last_target_point g)
       \<and> circle_start_time (handle_command CMD_AIM_BULLSEYE g) = circle_start_time g
       \<and> last_target_point (handle_command CMD_AIM_BULLSEYE g) = last_target_point g"
  using assms
  by (auto simp: send_target_coords_unfold gate_closed_def transmit_clamped aim_branch_eq
      handle_command_def set_send_interval_for_mode_def COMMAND_MAP_def
      split: if_splits)

subsection \<open>The clock, the command handler and an example run: helper lemmas\<close>

lemma ticks_diff_plain:
  assumes "- (2 ^ 29) \<le> a - b" "a - b < 2 ^ 29"
  shows "ticks_diff a b = a - b"
proof -
  have "0 \<le> a - b + 2 ^ 29" "a - b + 2 ^ 29 < (2 ^ 30 :: int)"
    using assms by simp_all
  then have "(a - b + 2 ^ 29) mod 2 ^ 30 = a - b + 2 ^ 29"
    by (rule mod_pos_pos_trivial)
  then show ?thesis
    by (simp add: ticks_diff_def TICKS_PERIOD_def)
qed

lemma ticks_ms_small: "0 \<le> t \<Longrightarrow> t < 2 ^ 30 \<Longrightarrow> ticks_ms t = t"
  by (simp add: ticks_ms_def TICKS_PERIOD_def)

lemma handle_command_simps:
  "handle_command CMD_AIM_BULLSEYE g =
     g\<lparr>current_state := STATE_AIM_BULLSEYE, current_send_interval_ms := 30\<rparr>"
  "handle_command CMD_CIRCLE_TRACKING g =
     g\<lparr>current_state := STATE_CIRCLE_TRACKING, current_send_interval_ms := 50,
       circle_start_time := None, current_angle := 0, last_target_point := None\<rparr>"
  "handle_command CMD_IDLE g = g\<lparr>current_state := STATE_IDLE\<rparr>"
  "c \<noteq> CMD_AIM_BULLSEYE \<Longrightarrow> c \<noteq> CMD_CIRCLE_TRACKING \<Longrightarrow> c \<noteq> CMD_IDLE
     \<Longrightarrow> handle_command c g = g"
  by (simp_all add: handle_command_def COMMAND_MAP_def CMD_AIM_BULLSEYE_def
      CMD_CIRCLE_TRACKING_def CMD_IDLE_def set_send_interval_for_mode_def
      STANDARD_SEND_INTERVAL_MS_def CIRCLE_SEND_INTERVAL_MS_def)

lemma py_fmod_zero: "py_fmod 0 y = 0"
  by (simp add: py_fmod_def)

lemma advance_angle_zero: "advance_angle 0 0 = 0"
  by (simp add: advance_angle_def wrap_angle_diff_def py_fmod_zero)

lemma ideal_angle_at_zero: "ideal_angle_at 0 = 0"
  by (simp add: ideal_angle_at_def)

lemma get_ellipse_point_zero:
  "get_ellipse_point (Some cx) (Some cy) (Some a) (Some b) 0 0 = (cx + max 1 a, cy)"
  by (simp add: get_ellipse_point_def py_int_def Let_def)

lemma example_circle_branch:
  assumes "circle_start_time g = None" "last_target_point g = None"
  shows "circle_branch \<lparr>ticks_at_entry = 100, ticks_at_start = 100, ticks_at_elapsed = 100,
        uart_write_ok = True\<rparr> (120, 80) 20 None g
     = ((140, 80), g\<lparr>circle_start_time := Some 100, current_angle := 0,
                      last_target_point := Some (140, 80)\<rparr>)"
proof -
  have td: "ticks_diff 100 100 = 0"
    by (simp add: ticks_diff_plain)
  show ?thesis
    using assms
    by (simp add: circle_branch_def td ideal_angle_at_zero advance_angle_zero
        get_ellipse_point_zero clamp255_def)
qed

lemma example_tracking_eq:
  "example_tracking =
     \<lparr> current_send_interval_ms = 50, last_uart_send_time = 100, current_angle = 0,
       circle_start_time = Some 100, last_target_point = Some (140, 80),
       current_state = STATE_CIRCLE_TRACKING,
       uart_tx = [[0x3C, 0x3B, 0x8C, 0x50, 0x01, 0x01]] \<rparr>"
proof -
  define g1 where "g1 = \<lparr> current_send_interval_ms = 50, last_uart_send_time = 0,
       current_angle = 0, circle_start_time = None, last_target_point = None,
       current_state = STATE_CIRCLE_TRACKING, uart_tx = [] \<rparr>"
  define env where "env = \<lparr>ticks_at_entry = 100, ticks_at_start = 100,
       ticks_at_elapsed = 100, uart_write_ok = True\<rparr>"
  have g0: "handle_command CMD_CIRCLE_TRACKING initial_globals = g1"
    by (simp add: handle_command_simps initial_globals_def g1_def)
  have e: "platform_at 100 100 100 True = env"
    by (simp add: platform_at_def ticks_ms_small env_def)
  have gate: "\<not> gate_closed env g1"
    by (simp add: gate_closed_def g1_def env_def ticks_diff_plain)
  have circ: "is_circle_call (Some ''circle'') (Some (120, 80)) (Some 20)"
    by (simp add: is_circle_call_def)
  have cb: "circle_branch env (120, 80) 20 None g1
      = ((140, 80), g1\<lparr>circle_start_time := Some 100, current_angle := 0,
                        last_target_point := Some (140, 80)\<rparr>)"
    unfolding env_def by (rule example_circle_branch) (simp_all add: g1_def)
  have tr: "transmit env 100 (140, 80) g
      = (Some (140, 80),
               g\<lparr>uart_tx := uart_tx g @ [[0x3C, 0x3B, 0x8C, 0x50, 0x01, 0x01]],
                 last_uart_send_time := 100\<rparr>)" for g
    using transmit_clamped [of env 100 140 80 g] by (simp add: clamp255_def env_def)
  have entry: "ticks_at_entry env = 100"
    by (simp add: env_def)
  have "send_target_coords env (Some 0) (Some 0) (Some ''circle'') (Some (120, 80))
          (Some 20) None g1
      = (Some (140, 80),
         g1\<lparr>circle_start_time := Some 100, current_angle := 0,
            last_target_point := Some (140, 80),
            uart_tx := [[0x3C, 0x3B, 0x8C, 0x50, 0x01, 0x01]],
            last_uart_send_time := 100\<rparr>)"
    by (simp add: send_target_coords_unfold gate circ cb tr entry) (simp add: g1_def)
  then show ?thesis
    unfolding example_tracking_def run.simps step.simps send_with_def g0 e
      example_circle_args_def
    by (simp add: g1_def)
qed

lemma transmit_keeps:
  "circle_start_time (snd (transmit env t f g)) = circle_start_time g"
  "current_angle (snd (transmit env t f g)) = current_angle g"
  "last_target_point (snd (transmit env t f g)) = last_target_point g"
  "current_send_interval_ms (snd (transmit env t f g)) = current_send_interval_ms g"
  "current_state (snd (transmit env t f g)) = current_state g"
  by (simp_all add: transmit_def Let_def split: option.splits)

lemma circle_branch_angle:
  "current_angle (snd (circle_branch env c r ep g)) =
     advance_angle
       (ideal_angle_at (ticks_diff (ticks_at_elapsed env)
          (case circle_start_time g of None \<Rightarrow> ticks_at_start env | Some t \<Rightarrow> t)))
       (case circle_start_time g of None \<Rightarrow> 0 | Some t \<Rightarrow> current_angle g)"
  "circle_start_time (snd (circle_branch env c r ep g)) =
     Some (case circle_start_time g of None \<Rightarrow> ticks_at_start env | Some t \<Rightarrow> t)"
  by (simp_all add: circle_branch_def Let_def split: option.splits prod.splits)

text \<open>
  An instance of the theorem of C10: after a circle send, the scan state is set; the
  command \<open>0xA1\<close> keeps it, and the next aim-mode send the gate permits clears it.
\<close>

theorem aim_send_clears_scan_state_witness:
  "circle_start_time example_tracking = Some 100
   \<and> last_target_point example_tracking = Some (140, 80)
   \<and> circle_start_time (snd (send_target_coords example_platform (Some 300) (Some (- 5))
        None None None None example_tracking)) = None
   \<and> last_target_point (snd (send_target_coords example_platform (Some 300) (Some (- 5))
        None None None None example_tracking)) = None
   \<and> circle_start_time (handle_command CMD_AIM_BULLSEYE example_tracking) = Some 100"
  using aim_send_clears_scan_state [of None None None example_platform "Some 300"
      "Some (- 5)" None example_tracking
      "fst (send_target_coords example_platform (Some 300) (Some (- 5))
        None None None None example_tracking)"
      "snd (send_target_coords example_platform (Some 300) (Some (- 5))
        None None None None example_tracking)"]
  by (simp add: is_circle_call_def example_tracking_eq example_platform_def
      ticks_diff_plain)

subsection \<open>C4: entering and leaving circle tracking\<close>

text \<open>
  Claim C4, as amended. The handler of the command \<open>0xA2\<close> sets the state to circle
  tracking and resets the scan state, from every state, circle tracking included:
  \<open>current_angle\<close> is 0, \<open>circle_start_time\<close> and \<open>last_target_point\<close> are \<open>None\<close>.
  The handlers of \<open>0xA1\<close> and \<open>0xA3\<close> leave \<open>circle_start_time\<close>,
  \<open>last_target_point\<close> and \<open>current_angle\<close> as they are. Re-entry never resumes the
  previous phase: the first circle send the gate permits after a \<open>0xA2\<close> takes its
  start time from the clock and advances the phase from 0, whatever the scan state was
  before the command.
\<close>

theorem tracking_entry_resets_scan_state:
  "current_state (handle_command CMD_CIRCLE_TRACKING g) = STATE_CIRCLE_TRACKING
   \<and> current_angle (handle_command CMD_CIRCLE_TRACKING g) = 0
   \<and> circle_start_time (handle_command CMD_CIRCLE_TRACKING g) = None
   \<and> last_target_point (handle_command CMD_CIRCLE_TRACKING g) = None
   \<and> circle_start_time (handle_command CMD_AIM_BULLSEYE g) = circle_start_time g
   \<and> last_target_point (handle_command CMD_AIM_BULLSEYE g) = last_target_point g
   \<and> current_angle (handle_command CMD_AIM_BULLSEYE g) = current_angle g
   \<and> circle_start_time (handle_command CMD_IDLE g) = circle_start_time g
   \<and> last_target_point (handle_command CMD_IDLE g) = last_target_point g
   \<and> current_angle (handle_command CMD_IDLE g) = current_angle g
   \<and> (is_circle_call mode center radius
        \<and> \<not> gate_closed env (handle_command CMD_CIRCLE_TRACKING g)
      \<longrightarrow> circle_start_time (snd (send_target_coords env cx cy mode center radius ep
               (handle_command CMD_CIRCLE_TRACKING g))) = Some (ticks_at_start env)
          \<and> current_angle (snd (send_target_coords env cx cy mode center radius ep
               (handle_command CMD_CIRCLE_TRACKING g)))
             = advance_angle
                 (ideal_angle_at (ticks_diff (ticks_at_elapsed env) (ticks_at_start env))) 0)"
  by (simp add: handle_command_simps send_target_coords_unfold transmit_keeps
      circle_branch_angle)

theorem tracking_entry_resets_scan_state_witness:
  "current_angle (handle_command CMD_CIRCLE_TRACKING example_tracking) = 0
   \<and> circle_start_time (handle_command CMD_CIRCLE_TRACKING example_tracking) = None
   \<and> last_target_point (handle_command CMD_CIRCLE_TRACKING example_tracking) = None
   \<and> circle_start_time (snd (send_target_coords example_platform (Some 0) (Some 0)
        (Some ''circle'') (Some (120, 80)) (Some 20) None
        (handle_command CMD_CIRCLE_TRACKING example_tracking))) = Some 1000"
  using tracking_entry_resets_scan_state [of example_tracking "Some ''circle''"
      "Some (120, 80)" "Some 20" example_platform "Some 0" "Some 0" None]
  by (simp add: is_circle_call_def gate_closed_def handle_command_simps
      example_tracking_eq example_platform_def ticks_diff_plain)

text \<open>
  The claim as stated says that leaving circle tracking clears \<open>circle_start_time\<close> and
  \<open>last_target_point\<close>. After one circle send, the commands \<open>0xA3\<close> and \<open>0xA1\<close>
  change the state and keep both.
\<close>

theorem leaving_tracking_clears_counterexample:
  "current_state example_tracking = STATE_CIRCLE_TRACKING
   \<and> current_state (handle_command CMD_IDLE example_tracking) = STATE_IDLE
   \<and> circle_start_time (handle_command CMD_IDLE example_tracking) = Some 100
   \<and> last_target_point (handle_command CMD_IDLE example_tracking) = Some (140, 80)
   \<and> current_state (handle_command CMD_AIM_BULLSEYE example_tracking) = STATE_AIM_BULLSEYE
   \<and> circle_start_time (handle_command CMD_AIM_BULLSEYE example_tracking) = Some 100
   \<and> last_target_point (handle_command CMD_AIM_BULLSEYE example_tracking) = Some (140, 80)"
  by (simp add: handle_command_simps example_tracking_eq)

subsection \<open>C7: mode changes and the send interval\<close>

text \<open>
  Claim C7, as amended. The handler of \<open>0xA1\<close> sets the interval to 30 ms and the
  handler of \<open>0xA2\<close> sets it to 50 ms; the handler of \<open>0xA3\<close> changes the state to
  idle and leaves the interval as it was. No command changes \<open>last_uart_send_time\<close>,
  and a byte that is not a command changes nothing.
\<close>

theorem mode_change_interval:
  "current_state (handle_command CMD_AIM_BULLSEYE g) = STATE_AIM_BULLSEYE
   \<and> current_send_interval_ms (handle_command CMD_AIM_BULLSEYE g) = 30
   \<and> current_state (handle_command CMD_CIRCLE_TRACKING g) = STATE_CIRCLE_TRACKING
   \<and> current_send_interval_ms (handle_command CMD_CIRCLE_TRACKING g) = 50
   \<and> current_state (handle_command CMD_IDLE g) = STATE_IDLE
   \<and> current_send_interval_ms (handle_command CMD_IDLE g) = current_send_interval_ms g
   \<and> last_uart_send_time (handle_command c g) = last_uart_send_time g
   \<and> (c \<notin> {CMD_AIM_BULLSEYE, CMD_CIRCLE_TRACKING, CMD_IDLE} \<longrightarrow> handle_command c g = g)"
proof -
  have "last_uart_send_time (handle_command c g) = last_uart_send_time g"
    by (cases "c = CMD_AIM_BULLSEYE \<or> c = CMD_CIRCLE_TRACKING \<or> c = CMD_IDLE")
      (auto simp: handle_command_simps)
  then show ?thesis
    by (simp add: handle_command_simps)
qed

theorem mode_change_interval_witness:
  "current_send_interval_ms (handle_command CMD_AIM_BULLSEYE example_tracking) = 30
   \<and> current_send_interval_ms (handle_command CMD_IDLE example_tracking) = 50
   \<and> last_uart_send_time (handle_command CMD_AIM_BULLSEYE example_tracking) = 100
   \<and> handle_command 0x7F example_tracking = example_tracking"
  using mode_change_interval [of example_tracking CMD_AIM_BULLSEYE]
    mode_change_interval [of example_tracking "0x7F"]
  by (simp add: example_tracking_eq CMD_AIM_BULLSEYE_def CMD_CIRCLE_TRACKING_def
      CMD_IDLE_def)

text \<open>
  The claim as stated says that the change to idle reconfigures the interval too. After
  circle tracking, the command \<open>0xA3\<close> leaves the interval at 50 ms, where
  \<open>set_send_interval_for_mode\<close> called for the idle state would have set 30 ms.
\<close>

theorem idle_reconfigures_interval_counterexample:
  "current_state (handle_command CMD_IDLE example_tracking) = STATE_IDLE
   \<and> current_send_interval_ms example_tracking = 50
   \<and> current_send_interval_ms (handle_command CMD_IDLE example_tracking) = 50
   \<and> current_send_interval_ms (set_send_interval_for_mode STATE_IDLE example_tracking) = 30"
  by (simp add: handle_command_simps example_tracking_eq set_send_interval_for_mode_def
      STANDARD_SEND_INTERVAL_MS_def)

subsection \<open>C9: the scan radius\<close>

lemma py_int_nonneg: "0 \<le> r \<Longrightarrow> py_int r = \<lfloor>r\<rfloor>"
  by (simp add: py_int_def)

lemma scaled_height_floor:
  "\<lfloor>real_of_int h * 0.2891\<rfloor> = (h * 2891) div 10000"
proof -
  have "real_of_int h * 0.2891 = real_of_int (h * 2891) / real_of_int 10000"
    by simp
  then show ?thesis
    by (simp only: floor_divide_of_int_eq)
qed

text \<open>
  Claim C9, as amended. For positive width and height \<open>calculate_circle_params\<close>
  returns the radius \<open>max(3, int(height * 0.2891))\<close>, where \<open>int\<close> truncates: the
  integer part of \<open>height * 0.2891\<close>, that is \<open>height * 2891 // 10000\<close>. When the width
  or the height is \<open>None\<close>, zero or negative it returns the radius 20. For every input
  the radius is at least 3.
\<close>

theorem circle_radius_truncates:
  "(0 < w \<and> 0 < h \<longrightarrow>
      calculate_circle_params (Some w) (Some h)
        = (0, max 3 (py_int (real_of_int h * 0.2891)))
      \<and> py_int (real_of_int h * 0.2891) = (h * 2891) div 10000
      \<and> real_of_int (py_int (real_of_int h * 0.2891)) \<le> real_of_int h * 0.2891
      \<and> real_of_int h * 0.2891 < real_of_int (py_int (real_of_int h * 0.2891)) + 1)
   \<and> (w \<le> 0 \<or> h \<le> 0 \<longrightarrow> calculate_circle_params (Some w) (Some h) = (30, 20))
   \<and> calculate_circle_params None rh = (30, 20)
   \<and> calculate_circle_params rw None = (30, 20)
   \<and> 3 \<le> snd (calculate_circle_params rw rh)"
proof -
  have pos: "0 < h \<Longrightarrow> py_int (real_of_int h * 0.2891) = \<lfloor>real_of_int h * 0.2891\<rfloor>"
    by (rule py_int_nonneg) simp
  have a: "0 < w \<and> 0 < h \<longrightarrow>
      calculate_circle_params (Some w) (Some h)
        = (0, max 3 (py_int (real_of_int h * 0.2891)))
      \<and> py_int (real_of_int h * 0.2891) = (h * 2891) div 10000
      \<and> real_of_int (py_int (real_of_int h * 0.2891)) \<le> real_of_int h * 0.2891
      \<and> real_of_int h * 0.2891 < real_of_int (py_int (real_of_int h * 0.2891)) + 1"
  proof (intro impI conjI)
    assume wh: "0 < w \<and> 0 < h"
    then show "calculate_circle_params (Some w) (Some h)
        = (0, max 3 (py_int (real_of_int h * 0.2891)))"
      by (simp add: calculate_circle_params_def)
    from wh show "py_int (real_of_int h * 0.2891) = (h * 2891) div 10000"
      by (simp only: pos scaled_height_floor)
    from wh show "real_of_int (py_int (real_of_int h * 0.2891)) \<le> real_of_int h * 0.2891"
      by (simp only: pos of_int_floor_le)
    from wh show "real_of_int h * 0.2891 < real_of_int (py_int (real_of_int h * 0.2891)) + 1"
      by (simp only: pos) linarith
  qed
  have b: "3 \<le> snd (calculate_circle_params rw rh)"
    by (simp add: calculate_circle_params_def split: option.splits)
  show ?thesis
    using a b by (auto simp: calculate_circle_params_def split: option.splits)
qed

theorem circle_radius_truncates_witness:
  "calculate_circle_params (Some 100) (Some 100) = (0, 28)
   \<and> calculate_circle_params (Some 100) (Some 5) = (0, 3)
   \<and> calculate_circle_params (Some 0) (Some 100) = (30, 20)"
  using circle_radius_truncates [of 100 100 None None]
    circle_radius_truncates [of 100 5 None None]
    circle_radius_truncates [of 0 100 None None]
  by simp

text \<open>
  The claim as stated rounds: for the height 100 the product is 28.91, the script
  returns 28 and \<open>round\<close> gives 29.
\<close>

theorem circle_radius_round_counterexample:
  "snd (calculate_circle_params (Some 100) (Some 100)) = 28
   \<and> circle_radius_spec 100 = 29"
proof -
  have "round (real_of_int 100 * 0.2891) = (29 :: int)"
    by (simp add: round_def)
  moreover have "py_int (real_of_int 100 * 0.2891) = 28"
    by (simp add: py_int_def)
  ultimately show ?thesis
    by (simp add: circle_radius_spec_def calculate_circle_params_def)
qed

subsection \<open>C8: the corrected centre\<close>

lemma two_lines_meet:
  fixes ax ay bx by' cx cy dx dy u v :: real
  assumes d: "(ax - cx) * (by' - dy) - (ay - cy) * (bx - dx) \<noteq> 0"
  shows "((u - ax) * (cy - ay) = (v - ay) * (cx - ax)
          \<and> (u - bx) * (dy - by') = (v - by') * (dx - bx))
     \<longleftrightarrow> (u = ((ax * cy - ay * cx) * (bx - dx) - (ax - cx) * (bx * dy - by' * dx))
               / ((ax - cx) * (by' - dy) - (ay - cy) * (bx - dx))
          \<and> v = ((ax * cy - ay * cx) * (by' - dy) - (ay - cy) * (bx * dy - by' * dx))
               / ((ax - cx) * (by' - dy) - (ay - cy) * (bx - dx)))"
proof -
  define D where "D = (ax - cx) * (by' - dy) - (ay - cy) * (bx - dx)"
  define N1 where "N1 = (ax * cy - ay * cx) * (bx - dx) - (ax - cx) * (bx * dy - by' * dx)"
  define N2 where "N2 = (ax * cy - ay * cx) * (by' - dy) - (ay - cy) * (bx * dy - by' * dx)"
  have D0: "D \<noteq> 0" using d by (simp add: D_def)
  have fwd: "u * D = N1 \<and> v * D = N2"
    if "(u - ax) * (cy - ay) = (v - ay) * (cx - ax)"
      and "(u - bx) * (dy - by') = (v - by') * (dx - bx)"
    using that unfolding D_def N1_def N2_def by algebra
  have bwd1: "(N1 - ax * D) * (cy - ay) = (N2 - ay * D) * (cx - ax)"
    unfolding D_def N1_def N2_def by algebra
  have bwd2: "(N1 - bx * D) * (dy - by') = (N2 - by' * D) * (dx - bx)"
    unfolding D_def N1_def N2_def by algebra
  have eq: "(u = N1 / D \<and> v = N2 / D) \<longleftrightarrow> (u * D = N1 \<and> v * D = N2)"
    using D0 by (auto simp: field_simps)
  have conv: "(u - ax) * (cy - ay) = (v - ay) * (cx - ax)
          \<and> (u - bx) * (dy - by') = (v - by') * (dx - bx)"
    if h: "u * D = N1 \<and> v * D = N2"
  proof -
    have "((u - ax) * (cy - ay)) * D = ((v - ay) * (cx - ax)) * D"
      using bwd1 h by algebra
    moreover have "((u - bx) * (dy - by')) * D = ((v - by') * (dx - bx)) * D"
      using bwd2 h by algebra
    ultimately show ?thesis using D0 by simp
  qed
  show ?thesis
    unfolding D_def [symmetric] N1_def [symmetric] N2_def [symmetric] eq
    using fwd conv by blast
qed

lemma perspective_four:
  "calculate_perspective_correction (Some [(x0, y0), (x1, y1), (x2, y2), (x3, y3)]) =
     (if (x0 - x2) * (y1 - y3) - (y0 - y2) * (x1 - x3) = 0
      then ((x0 + x1 + x2 + x3) div 4, (y0 + y1 + y2 + y3) div 4)
      else
        (py_int (real_of_int ((x0 * y2 - y0 * x2) * (x1 - x3) - (x0 - x2) * (x1 * y3 - y1 * x3))
                  / real_of_int ((x0 - x2) * (y1 - y3) - (y0 - y2) * (x1 - x3))),
         py_int (real_of_int ((x0 * y2 - y0 * x2) * (y1 - y3) - (y0 - y2) * (x1 * y3 - y1 * x3))
                  / real_of_int ((x0 - x2) * (y1 - y3) - (y0 - y2) * (x1 - x3)))))"
  by (simp add: calculate_perspective_correction_def Let_def add.assoc)

lemma square_center:
  assumes "0 < s"
  shows "calculate_perspective_correction
           (Some [(x, y), (x + s, y), (x + s, y + s), (x, y + s)])
         = (py_int (real_of_int (x + (x + s) + (x + s) + x) / 4),
            py_int (real_of_int (y + y + (y + s) + (y + s)) / 4))"
proof -
  have s0: "real_of_int s \<noteq> 0" using assms by simp
  have d: "(x - (x + s)) * (y - (y + s)) - (y - (y + s)) * (x + s - x) = 2 * s * s"
    by (simp add: algebra_simps)
  have d0: "2 * s * s \<noteq> 0" using assms by simp
  have nx: "(x * (y + s) - y * (x + s)) * (x + s - x) - (x - (x + s)) * ((x + s) * (y + s) - y * x)
      = s * s * (2 * x + s)"
    by (simp add: algebra_simps)
  have ny: "(x * (y + s) - y * (x + s)) * (y - (y + s)) - (y - (y + s)) * ((x + s) * (y + s) - y * x)
      = s * s * (2 * y + s)"
    by (simp add: algebra_simps)
  have qx: "real_of_int (s * s * (2 * x + s)) / real_of_int (2 * s * s)
      = real_of_int (x + (x + s) + (x + s) + x) / 4"
    using s0 by (simp add: field_simps)
  have qy: "real_of_int (s * s * (2 * y + s)) / real_of_int (2 * s * s)
      = real_of_int (y + y + (y + s) + (y + s)) / 4"
    using s0 by (simp add: field_simps)
  show ?thesis
    unfolding perspective_four d nx ny qx qy using d0 by (simp only: if_False)
qed

lemma py_int_quarter:
  assumes "0 \<le> k"
  shows "py_int (real_of_int k / 4) = k div 4"
proof -
  have "py_int (real_of_int k / 4) = \<lfloor>real_of_int k / real_of_int 4\<rfloor>"
    using assms by (simp add: py_int_def)
  then show ?thesis
    by (simp only: floor_divide_of_int_eq)
qed

text \<open>
  Claim C8. For four corners, \<open>calculate_perspective_correction\<close> takes the fallback,
  the mean of the corners with \<open>// 4\<close>, exactly when the determinant \<open>d\<close> is zero.
  Otherwise it returns, each coordinate converted by \<open>int\<close>, the point given by the
  two-line formula, and that point is the one and only point on both diagonals (the
  line through corners 0 and 2 and the line through corners 1 and 3). For the corners
  \<open>get_approximate_corners\<close> gives for a square of side \<open>s > 0\<close>, the result is the
  arithmetic mean of the four corners, each coordinate converted by \<open>int\<close>; when the
  coordinates of the square are not negative, as pixel coordinates are, this is also
  the mean with \<open>// 4\<close> that the fallback computes.
\<close>

theorem perspective_center:
  "((x0 - x2) * (y1 - y3) - (y0 - y2) * (x1 - x3) = 0 \<longrightarrow>
      calculate_perspective_correction (Some [(x0, y0), (x1, y1), (x2, y2), (x3, y3)])
        = ((x0 + x1 + x2 + x3) div 4, (y0 + y1 + y2 + y3) div 4))
   \<and> ((x0 - x2) * (y1 - y3) - (y0 - y2) * (x1 - x3) \<noteq> 0 \<longrightarrow>
      (\<exists>px py.
         calculate_perspective_correction (Some [(x0, y0), (x1, y1), (x2, y2), (x3, y3)])
           = (py_int px, py_int py)
         \<and> (\<forall>u v. (on_line (u, v) (x0, y0) (x2, y2) \<and> on_line (u, v) (x1, y1) (x3, y3))
                   = (u = px \<and> v = py))))
   \<and> (0 < s \<longrightarrow>
      get_approximate_corners (Some \<lparr>rect = (x, y, s, s), pixels = n, perimeter = p\<rparr>)
        = Some [(x, y), (x + s, y), (x + s, y + s), (x, y + s)]
      \<and> calculate_perspective_correction
          (Some [(x, y), (x + s, y), (x + s, y + s), (x, y + s)])
        = (py_int (real_of_int (x + (x + s) + (x + s) + x) / 4),
           py_int (real_of_int (y + y + (y + s) + (y + s)) / 4))
      \<and> (0 \<le> x \<and> 0 \<le> y \<longrightarrow>
          calculate_perspective_correction
            (Some [(x, y), (x + s, y), (x + s, y + s), (x, y + s)])
          = ((x + (x + s) + (x + s) + x) div 4, (y + y + (y + s) + (y + s)) div 4)))"
proof (intro conjI impI)
  assume "(x0 - x2) * (y1 - y3) - (y0 - y2) * (x1 - x3) = 0"
  then show "calculate_perspective_correction (Some [(x0, y0), (x1, y1), (x2, y2), (x3, y3)])
        = ((x0 + x1 + x2 + x3) div 4, (y0 + y1 + y2 + y3) div 4)"
    by (simp add: perspective_four)
next
  assume d: "(x0 - x2) * (y1 - y3) - (y0 - y2) * (x1 - x3) \<noteq> 0"
  let ?px = "real_of_int ((x0 * y2 - y0 * x2) * (x1 - x3) - (x0 - x2) * (x1 * y3 - y1 * x3))
                  / real_of_int ((x0 - x2) * (y1 - y3) - (y0 - y2) * (x1 - x3))"
  let ?py = "real_of_int ((x0 * y2 - y0 * x2) * (y1 - y3) - (y0 - y2) * (x1 * y3 - y1 * x3))
                  / real_of_int ((x0 - x2) * (y1 - y3) - (y0 - y2) * (x1 - x3))"
  have r: "calculate_perspective_correction (Some [(x0, y0), (x1, y1), (x2, y2), (x3, y3)])
      = (py_int ?px, py_int ?py)"
    using d by (simp only: perspective_four if_False)
  have dr: "(real_of_int x0 - real_of_int x2) * (real_of_int y1 - real_of_int y3)
      - (real_of_int y0 - real_of_int y2) * (real_of_int x1 - real_of_int x3) \<noteq> 0"
  proof -
    have "real_of_int ((x0 - x2) * (y1 - y3) - (y0 - y2) * (x1 - x3)) \<noteq> 0"
      using d by (simp only: of_int_eq_0_iff not_False_eq_True)
    then show ?thesis by simp
  qed
  have u: "(on_line (u, v) (x0, y0) (x2, y2) \<and> on_line (u, v) (x1, y1) (x3, y3))
      = (u = ?px \<and> v = ?py)" for u v
    using two_lines_meet [OF dr, of u v] by (simp add: on_line_def)
  show "\<exists>px py.
         calculate_perspective_correction (Some [(x0, y0), (x1, y1), (x2, y2), (x3, y3)])
           = (py_int px, py_int py)
         \<and> (\<forall>u v. (on_line (u, v) (x0, y0) (x2, y2) \<and> on_line (u, v) (x1, y1) (x3, y3))
                   = (u = px \<and> v = py))"
    using r u by blast
next
  assume "0 < s"
  show "get_approximate_corners (Some \<lparr>rect = (x, y, s, s), pixels = n, perimeter = p\<rparr>)
        = Some [(x, y), (x + s, y), (x + s, y + s), (x, y + s)]"
    by (simp add: get_approximate_corners_def)
next
  assume "0 < s"
  then show "calculate_perspective_correction
          (Some [(x, y), (x + s, y), (x + s, y + s), (x, y + s)])
        = (py_int (real_of_int (x + (x + s) + (x + s) + x) / 4),
           py_int (real_of_int (y + y + (y + s) + (y + s)) / 4))"
    by (rule square_center)
next
  assume s: "0 < s" and xy: "0 \<le> x \<and> 0 \<le> y"
  have "0 \<le> x + (x + s) + (x + s) + x" "0 \<le> y + y + (y + s) + (y + s)"
    using s xy by simp_all
  then show "calculate_perspective_correction
            (Some [(x, y), (x + s, y), (x + s, y + s), (x, y + s)])
          = ((x + (x + s) + (x + s) + x) div 4, (y + y + (y + s) + (y + s)) div 4)"
    by (simp only: square_center [OF s] py_int_quarter)
qed

theorem perspective_center_witness:
  "calculate_perspective_correction (Some [(0, 0), (3, 0), (3, 1), (0, 1)]) = (1, 0)
   \<and> calculate_perspective_correction (Some [(0, 0), (1, 1), (2, 2), (3, 3)]) = (1, 1)
   \<and> calculate_perspective_correction (Some [(70, 40), (75, 40), (75, 45), (70, 45)]) = (72, 42)"
proof -
  have a: "calculate_perspective_correction (Some [(0, 0), (1, 1), (2, 2), (3, 3)]) = (1, 1)"
    using perspective_center [of 0 2 1 3 0 2 1 3 1 0 0 0 0] by simp
  have b: "calculate_perspective_correction (Some [(70, 40), (75, 40), (75, 45), (70, 45)])
      = (72, 42)"
    using perspective_center [of 0 0 0 0 0 0 0 0 5 70 40 0 0] by (simp add: py_int_def)
  obtain px py where r: "calculate_perspective_correction (Some [(0, 0), (3, 0), (3, 1), (0, 1)])
      = (py_int px, py_int py)"
    and u: "\<And>u v. (on_line (u, v) (0, 0) (3, 1) \<and> on_line (u, v) (3, 0) (0, 1))
                   = (u = px \<and> v = py)"
    using perspective_center [of 0 3 0 1 0 1 3 0 1 0 0 0 0] by auto
  have "on_line (3 / 2, 1 / 2) (0, 0) (3, 1) \<and> on_line (3 / 2, 1 / 2) (3, 0) (0, 1)"
    by (simp add: on_line_def)
  then have "3 / 2 = px \<and> 1 / 2 = py"
    by (simp only: u)
  then have pxy: "px = 3 / 2" "py = 1 / 2"
    by simp_all
  have "py_int (3 / 2) = 1" "py_int (1 / 2) = 0"
    by (simp_all add: py_int_def)
  then have "calculate_perspective_correction (Some [(0, 0), (3, 0), (3, 1), (0, 1)]) = (1, 0)"
    by (simp only: r pxy)
  then show ?thesis using a b by simp
qed

text \<open>
  \<open>int\<close> truncates towards zero and \<open>//\<close> rounds down, so the two means differ for a
  square with an odd side whose centre has a negative coordinate.
\<close>

lemma square_center_negative:
  "calculate_perspective_correction (Some [(- 3, - 3), (- 2, - 3), (- 2, - 2), (- 3, - 2)])
     = (- 2, - 2)
   \<and> ((- 3) + (- 2) + (- 2) + (- 3)) div 4 = (- 3 :: int)"
  using square_center [of 1 "- 3" "- 3"] by (simp add: py_int_def)

subsection \<open>C3: the candidate validator\<close>

lemma shape_factor_guard:
  assumes "n \<le> 0"
  shows "real_of_int (p * p) / (4 * pi * real_of_int n) \<le> 11 / 10"
proof -
  have "0 \<le> real_of_int (p * p)" by simp
  moreover have "4 * pi * real_of_int n \<le> 0"
    using assms by (simp add: mult_nonneg_nonpos)
  ultimately have "real_of_int (p * p) / (4 * pi * real_of_int n) \<le> 0"
    by (rule divide_nonneg_nonpos)
  then show ?thesis by simp
qed

lemma check_blob_accepted:
  "check_blob b = (if accepted b then Some (b, rect_area_of b) else None)"
proof -
  obtain x y w h where r: "rect b = (x, y, w, h)"
    by (cases "rect b") auto
  show ?thesis
  proof (cases "0 < w * h")
    case True
    then show ?thesis
      by (auto simp add: check_blob_def accepted_def survives_def touches_edge_def
          rect_area_of_def blob_area_def r Let_def SCREEN_WIDTH_def SCREEN_HEIGHT_def
          simp del: of_int_mult)
  next
    case False
    then have "real_of_int (perimeter b * perimeter b) / (4 * pi * real_of_int (w * h))
        \<le> 11 / 10"
      by (intro shape_factor_guard) simp
    with False show ?thesis
      by (auto simp add: check_blob_def accepted_def survives_def touches_edge_def
          rect_area_of_def blob_area_def r Let_def SCREEN_WIDTH_def SCREEN_HEIGHT_def
          simp del: of_int_mult)
  qed
qed

lemma collect_candidates_filter:
  "collect_candidates blobs candidates
     = candidates @ map (\<lambda>b. (b, rect_area_of b)) (filter accepted blobs)"
  by (induction blobs arbitrary: candidates) (simp_all add: check_blob_accepted)

lemma py_max_from_first:
  "\<exists>ys zs. best # xs = ys @ py_max_from key best xs # zs
     \<and> (\<forall>y\<in>set ys. key y < key (py_max_from key best xs))
     \<and> (\<forall>z\<in>set zs. key z \<le> key (py_max_from key best xs))"
proof (induction xs arbitrary: best)
  case Nil
  show ?case by (intro exI [of _ "[]"]) simp
next
  case (Cons x xs)
  define kept where "kept = (if key x > key best then x else best)"
  define r where "r = py_max_from key kept xs"
  have res: "py_max_from key best (x # xs) = r"
    by (simp add: r_def kept_def)
  from Cons.IH [of kept] obtain ys zs where s: "kept # xs = ys @ r # zs"
    and lt: "\<forall>y\<in>set ys. key y < key r" and le: "\<forall>z\<in>set zs. key z \<le> key r"
    unfolding r_def by blast
  have "kept \<in> set (kept # xs)" by simp
  then have "kept \<in> set (ys @ r # zs)" by (simp only: s)
  then have kr: "key kept \<le> key r"
    using lt le by auto
  have goal: "\<exists>ys' zs'. best # x # xs = ys' @ r # zs'
      \<and> (\<forall>y\<in>set ys'. key y < key r) \<and> (\<forall>z\<in>set zs'. key z \<le> key r)"
  proof (cases "key x > key best")
    case True
    then have k: "kept = x" by (simp add: kept_def)
    have "key best < key r" using True kr k by simp
    then have "best # x # xs = (best # ys) @ r # zs
        \<and> (\<forall>y\<in>set (best # ys). key y < key r) \<and> (\<forall>z\<in>set zs. key z \<le> key r)"
      using s k lt le by simp
    then show ?thesis by (intro exI [of _ "best # ys"] exI [of _ zs])
  next
    case False
    then have k: "kept = best" by (simp add: kept_def)
    have kx: "key x \<le> key best" using False by simp
    show ?thesis
    proof (cases ys)
      case Nil
      have "best # xs = r # zs" using s k Nil by simp
      then have rb: "r = best" and zx: "zs = xs" by simp_all
      have "best # x # xs = [] @ r # (x # xs)
          \<and> (\<forall>y\<in>set []. key y < key r) \<and> (\<forall>z\<in>set (x # xs). key z \<le> key r)"
        using rb zx kx le by simp
      then show ?thesis by (intro exI [of _ "[]"] exI [of _ "x # xs"])
    next
      case (Cons y ys')
      have "best # xs = y # ys' @ r # zs" using s k Cons by simp
      then have yb: "y = best" and xs: "xs = ys' @ r # zs" by simp_all
      have "y \<in> set ys" using Cons by simp
      then have "key y < key r" using lt by blast
      then have br: "key best < key r" using yb by simp
      then have xr: "key x < key r" using kx by simp
      have ys': "\<forall>y\<in>set ys'. key y < key r" using lt Cons by simp
      have "best # x # xs = (best # x # ys') @ r # zs
          \<and> (\<forall>y\<in>set (best # x # ys'). key y < key r) \<and> (\<forall>z\<in>set zs. key z \<le> key r)"
        using xs br xr ys' le by simp
      then show ?thesis by (intro exI [of _ "best # x # ys'"] exI [of _ zs])
    qed
  qed
  show ?case
    unfolding res by (rule goal)
qed

lemma filter_split:
  "filter P xs = ys @ b # zs \<Longrightarrow>
     \<exists>pre post. xs = pre @ b # post \<and> P b \<and> filter P pre = ys \<and> filter P post = zs"
proof (induction xs arbitrary: ys)
  case Nil
  then show ?case by simp
next
  case (Cons x xs)
  show ?case
  proof (cases "P x")
    case False
    with Cons.prems have "filter P xs = ys @ b # zs" by simp
    from Cons.IH [OF this] obtain pre post where
      "xs = pre @ b # post \<and> P b \<and> filter P pre = ys \<and> filter P post = zs"
      by blast
    with False have "x # xs = (x # pre) @ b # post \<and> P b \<and> filter P (x # pre) = ys
        \<and> filter P post = zs"
      by simp
    then show ?thesis by blast
  next
    case True
    with Cons.prems have e: "x # filter P xs = ys @ b # zs" by simp
    show ?thesis
    proof (cases ys)
      case Nil
      with e have "x = b" "filter P xs = zs" by simp_all
      with True have "x # xs = [] @ b # xs \<and> P b \<and> filter P [] = [] \<and> filter P xs = zs"
        by simp
      with Nil show ?thesis by blast
    next
      case (Cons y ys')
      with e have xy: "x = y" and f: "filter P xs = ys' @ b # zs" by simp_all
      from Cons.IH [OF f] obtain pre post where
        "xs = pre @ b # post \<and> P b \<and> filter P pre = ys' \<and> filter P post = zs"
        by blast
      with True xy Cons have "x # xs = (x # pre) @ b # post \<and> P b
          \<and> filter P (x # pre) = ys \<and> filter P post = zs"
        by simp
      then show ?thesis by blast
    qed
  qed
qed

lemma map_split:
  assumes "map f xs = ys @ r # zs"
  shows "\<exists>us v vs. xs = us @ v # vs \<and> ys = map f us \<and> r = f v \<and> zs = map f vs"
proof -
  from assms obtain us ws where a: "xs = us @ ws" and b: "ys = map f us"
    and c: "r # zs = map f ws"
    by (auto simp: map_eq_append_conv)
  from c obtain v vs where d: "ws = v # vs" and e: "r = f v" and g: "zs = map f vs"
    by (auto simp: Cons_eq_map_conv)
  show ?thesis
    using a b d e g by (intro exI [of _ us] exI [of _ v] exI [of _ vs]) simp
qed

lemma find_target_None:
  "(find_target_boundary_rect blobs = None) = (\<forall>b\<in>set blobs. \<not> accepted b)"
proof (cases "filter accepted blobs")
  case Nil
  then have "\<forall>b\<in>set blobs. \<not> accepted b"
    by (simp add: filter_empty_conv)
  with Nil show ?thesis
    by (simp add: find_target_boundary_rect_def collect_candidates_filter)
next
  case (Cons c cs)
  then have "c \<in> set (filter accepted blobs)" by simp
  then have "\<exists>b\<in>set blobs. accepted b" by auto
  moreover have "blobs \<noteq> []" using Cons by auto
  ultimately show ?thesis
    using Cons by (auto simp: find_target_boundary_rect_def collect_candidates_filter)
qed

lemma find_target_Some:
  assumes "find_target_boundary_rect blobs = Some b"
  shows "\<exists>pre post. blobs = pre @ b # post \<and> accepted b
     \<and> (\<forall>c\<in>set pre. accepted c \<longrightarrow> rect_area_of c < rect_area_of b)
     \<and> (\<forall>c\<in>set post. accepted c \<longrightarrow> rect_area_of c \<le> rect_area_of b)"
proof (cases "filter accepted blobs")
  case Nil
  then have "find_target_boundary_rect blobs = None"
    by (simp add: find_target_boundary_rect_def collect_candidates_filter)
  with assms show ?thesis by simp
next
  case (Cons c cs)
  let ?f = "\<lambda>b. (b, rect_area_of b)"
  let ?r = "py_max_from snd (?f c) (map ?f cs)"
  have ne: "blobs \<noteq> []" using Cons by auto
  have res: "find_target_boundary_rect blobs = Some (fst ?r)"
    using Cons ne by (simp add: find_target_boundary_rect_def collect_candidates_filter)
  then have b: "fst ?r = b" using assms by simp
  from py_max_from_first [of "?f c" "map ?f cs" snd]
  obtain ys zs where s: "?f c # map ?f cs = ys @ ?r # zs"
    and lt: "\<forall>y\<in>set ys. snd y < snd ?r" and le: "\<forall>z\<in>set zs. snd z \<le> snd ?r"
    by blast
  have m: "map ?f (c # cs) = ys @ ?r # zs" using s by simp
  from map_split [OF m] obtain us v vs where sp: "c # cs = us @ v # vs"
    and ys: "ys = map ?f us" and r: "?r = ?f v" and zs: "zs = map ?f vs"
    by (elim exE conjE)
  have vb: "v = b" using b r by simp
  have sr: "snd ?r = rect_area_of b" using r vb by simp
  from sp Cons have "filter accepted blobs = us @ b # vs" using vb by simp
  from filter_split [OF this] obtain pre post where p: "blobs = pre @ b # post"
    and sb: "accepted b" and fp: "filter accepted pre = us" and fq: "filter accepted post = vs"
    by blast
  have "\<forall>c\<in>set pre. accepted c \<longrightarrow> rect_area_of c < rect_area_of b"
  proof (intro ballI impI)
    fix c assume "c \<in> set pre" "accepted c"
    then have "c \<in> set us" using fp by auto
    then have "?f c \<in> set ys" using ys by simp
    then have "snd (?f c) < snd ?r" using lt by blast
    then show "rect_area_of c < rect_area_of b" using sr by simp
  qed
  moreover have "\<forall>c\<in>set post. accepted c \<longrightarrow> rect_area_of c \<le> rect_area_of b"
  proof (intro ballI impI)
    fix c assume "c \<in> set post" "accepted c"
    then have "c \<in> set vs" using fq by auto
    then have "?f c \<in> set zs" using zs by simp
    then have "snd (?f c) \<le> snd ?r" using le by blast
    then show "rect_area_of c \<le> rect_area_of b" using sr by simp
  qed
  ultimately show ?thesis using p sb by blast
qed

text \<open>
  What the loop does, for the record: it keeps the blobs that are \<open>accepted\<close>, and the
  function returns the first accepted blob of maximum rectangle area, or \<open>None\<close> when
  no blob is accepted (lemmas \<open>find_target_None\<close> and \<open>find_target_Some\<close>; of two
  accepted blobs of equal area \<open>example_selection\<close> returns the first). A blob that
  touches an edge is never accepted.
\<close>

lemma example_blobs_accepted:
  "accepted example_target" "accepted example_second" "\<not> accepted example_edge_blob"
proof -
  have p: "pi < 4" by (rule pi_less_4)
  have "11 / 10 * (4 * pi * 8000) < 518400"
    using p by simp
  then have sf: "\<not> 518400 / (4 * pi * 8000) \<le> 11 / 10"
    using pi_gt_zero by (simp add: field_simps)
  show "accepted example_target"
    using sf by (simp add: accepted_def blob_area_def survives_def example_target_def
        touches_edge_def SCREEN_WIDTH_def SCREEN_HEIGHT_def)
  show "accepted example_second"
    using sf by (simp add: accepted_def blob_area_def survives_def example_second_def
        touches_edge_def SCREEN_WIDTH_def SCREEN_HEIGHT_def)
  show "\<not> accepted example_edge_blob"
    by (simp add: accepted_def blob_area_def survives_def example_edge_blob_def
        touches_edge_def)
qed

lemma example_selection:
  "find_target_boundary_rect [example_edge_blob, example_target, example_second]
     = Some example_target"
  by (simp add: find_target_boundary_rect_def collect_candidates_filter
      example_blobs_accepted)
    (simp add: rect_area_of_def example_target_def example_second_def)

lemma touches_edge_rejected: "touches_edge b \<Longrightarrow> check_blob b = None"
  by (simp add: check_blob_accepted accepted_def survives_def touches_edge_def
      split: prod.splits)

text \<open>
  Claim C3 against the script. The claim rejects on the density
  \<open>pixelCount / rectangle area\<close> and on the shape factor
  \<open>perimeter^2 / (4 pi pixelCount)\<close>. The script computes both from \<open>blob.area()\<close>, the
  area of the bounding rectangle, so its density is always 1 and every rectangle
  larger than 75% of the frame is rejected. The blob \<open>example_sparse\<close> (rectangle
  200 x 145 at (10, 10), 10000 filled pixels, perimeter 690) survives the pipeline of
  the claim: density 0.34, aspect ratio 1.38, rectangle area 29000, shape factor 3.79.
  The script rejects it and returns \<open>None\<close> for the list that holds it alone.
\<close>

theorem select_target_reads_box_area:
  "survives example_sparse
   \<and> pixels example_sparse = 10000
   \<and> blob_area example_sparse = 29000
   \<and> \<not> accepted example_sparse
   \<and> check_blob example_sparse = None
   \<and> find_target_boundary_rect [example_sparse] = None"
proof -
  have p: "pi < 4" by (rule pi_less_4)
  have "11 / 10 * (4 * pi * 10000) < 476100"
    using p by simp
  then have sf: "\<not> 476100 / (4 * pi * 10000) \<le> 11 / 10"
    using pi_gt_zero by (simp add: field_simps)
  have s: "survives example_sparse"
    using sf by (simp add: survives_def example_sparse_def touches_edge_def
        SCREEN_WIDTH_def SCREEN_HEIGHT_def)
  have a: "blob_area example_sparse = 29000"
    by (simp add: blob_area_def example_sparse_def)
  have n: "\<not> accepted example_sparse"
    by (simp add: accepted_def blob_area_def survives_def example_sparse_def
        touches_edge_def SCREEN_WIDTH_def SCREEN_HEIGHT_def)
  have c: "check_blob example_sparse = None"
    using n by (simp add: check_blob_accepted)
  have f: "find_target_boundary_rect [example_sparse] = None"
    using n by (simp add: find_target_None)
  show ?thesis
    using s a n c f by (simp add: example_sparse_def)
qed

subsection \<open>The phase angle in exact arithmetic\<close>

text \<open>
  The rule of lines 261 to 264 with real numbers: the difference of two angles of
  \<open>[0, 2 pi)\<close> is wrapped into \<open>[- pi, pi]\<close>, and from the phase 0.1 towards the ideal
  angle \<open>2 pi - 0.1\<close> the phase goes down to 0.04 and from there through 0 to
  \<open>2 pi - 0.002\<close>. These lemmas are about exact arithmetic only: they say nothing
  about the bound \<open>current_angle < 2 pi\<close> in the script, where the float \<open>%\<close> can return
  \<open>2 * math.pi\<close> itself.
\<close>

lemma py_fmod_small:
  assumes "0 \<le> x" "x < y"
  shows "py_fmod x y = x"
proof -
  have "0 < y" using assms by simp
  then have "0 \<le> x / y" "x / y < 1"
    using assms by simp_all
  then have "\<lfloor>x / y\<rfloor> = 0"
    by (simp add: floor_eq_iff)
  then show ?thesis by (simp add: py_fmod_def)
qed

lemma py_fmod_below_zero:
  assumes "- y \<le> x" "x < 0"
  shows "py_fmod x y = x + y"
proof -
  have y: "0 < y" using assms by simp
  have "- 1 \<le> x / y"
    using assms y by (simp add: pos_le_divide_eq)
  moreover have "x / y < 0"
    using assms y by (simp add: divide_neg_pos)
  ultimately have "\<lfloor>x / y\<rfloor> = - 1"
    by (simp add: floor_eq_iff)
  then show ?thesis by (simp add: py_fmod_def)
qed

lemma ideal_angle_at_range: "0 \<le> ideal_angle_at e \<and> ideal_angle_at e < 2 * pi"
proof -
  have m: "0 \<le> e mod 15000" "e mod 15000 < 15000"
    by simp_all
  have "real_of_int (e mod 15000) / 15000 < 1"
    using m by simp
  then have "real_of_int (e mod 15000) / 15000 * (2 * pi) < 1 * (2 * pi)"
    using pi_gt_zero by (intro mult_strict_right_mono) simp_all
  moreover have "0 \<le> real_of_int (e mod 15000) / 15000 * (2 * pi)"
    using m by simp
  ultimately show ?thesis
    by (simp add: ideal_angle_at_def target_circle_time_def)
qed

lemma wrap_angle_diff_range:
  assumes "- 2 * pi < d" "d < 2 * pi"
  shows "- pi \<le> wrap_angle_diff d \<and> wrap_angle_diff d \<le> pi"
  using assms pi_gt_zero by (simp add: wrap_angle_diff_def)

lemma advance_angle_down:
  assumes "pi < ideal - a"
  shows "advance_angle ideal a = py_fmod (a + (ideal - a - 2 * pi) * 0.3) (2 * pi)"
  using assms by (simp add: advance_angle_def wrap_angle_diff_def)

lemma advance_short_way:
  "advance_angle (2 * pi - 0.1) 0.1 = 0.04"
  "advance_angle (2 * pi - 0.1) 0.04 = 2 * pi - 0.002"
proof -
  have p: "2 \<le> pi" by (rule pi_ge_two)
  have d1: "pi < 2 * pi - 0.1 - 0.1"
    using p by simp
  have d2: "pi < 2 * pi - 0.1 - 0.04"
    using p by simp
  have v1: "0.1 + (2 * pi - 0.1 - 0.1 - 2 * pi) * 0.3 = (0.04 :: real)"
    by simp
  have v2: "0.04 + (2 * pi - 0.1 - 0.04 - 2 * pi) * 0.3 = (- 0.002 :: real)"
    by simp
  have f1: "py_fmod 0.04 (2 * pi) = 0.04"
    using p by (intro py_fmod_small) simp_all
  have f2: "py_fmod (- 0.002) (2 * pi) = - 0.002 + 2 * pi"
    using p by (intro py_fmod_below_zero) simp_all
  show "advance_angle (2 * pi - 0.1) 0.1 = 0.04"
    by (simp only: advance_angle_down [OF d1] v1 f1)
  have "advance_angle (2 * pi - 0.1) 0.04 = - 0.002 + 2 * pi"
    by (simp only: advance_angle_down [OF d2] v2 f2)
  then show "advance_angle (2 * pi - 0.1) 0.04 = 2 * pi - 0.002"
    by simp
qed

subsection \<open>C2: the rate gate over a run\<close>

lemma ticks_diff_of_times:
  "ticks_diff (ticks_ms t) (ticks_ms t0) = (t - t0 + 2 ^ 29) mod 2 ^ 30 - 2 ^ 29"
proof -
  have "(t mod 2 ^ 30 - t0 mod 2 ^ 30 + 2 ^ 29) mod 2 ^ 30 = (t - t0 + 2 ^ 29) mod (2 ^ 30 :: int)"
    by (intro mod_add_cong mod_diff_cong) simp_all
  then show ?thesis
    by (simp add: ticks_diff_def ticks_ms_def TICKS_PERIOD_def)
qed

lemma ticks_gate_open:
  assumes le: "t0 \<le> t" and iv: "interval \<le> 2 ^ 29"
    and gate: "\<not> ticks_diff (ticks_ms t) (ticks_ms t0) < interval"
  shows "interval \<le> t - t0"
proof (rule ccontr)
  assume "\<not> interval \<le> t - t0"
  then have lt: "t - t0 < interval" by simp
  have "0 \<le> t - t0 + 2 ^ 29" "t - t0 + 2 ^ 29 < (2 ^ 30 :: int)"
    using le lt iv by simp_all
  then have "(t - t0 + 2 ^ 29) mod 2 ^ 30 = t - t0 + 2 ^ 29"
    by (rule mod_pos_pos_trivial)
  then have "ticks_diff (ticks_ms t) (ticks_ms t0) = t - t0"
    by (simp add: ticks_diff_of_times)
  with lt gate show False by simp
qed

lemma branch_keeps:
  "uart_tx (snd (aim_branch cx cy g)) = uart_tx g"
  "last_uart_send_time (snd (aim_branch cx cy g)) = last_uart_send_time g"
  "current_send_interval_ms (snd (aim_branch cx cy g)) = current_send_interval_ms g"
  "current_state (snd (aim_branch cx cy g)) = current_state g"
  "uart_tx (snd (circle_branch env c r ep g)) = uart_tx g"
  "last_uart_send_time (snd (circle_branch env c r ep g)) = last_uart_send_time g"
  "current_send_interval_ms (snd (circle_branch env c r ep g)) = current_send_interval_ms g"
  "current_state (snd (circle_branch env c r ep g)) = current_state g"
  using circle_branch_shape [of env c r ep g] by (auto simp: aim_branch_eq)

lemma transmit_gate_fields:
  "last_uart_send_time (snd (transmit env t (clamp255 x, clamp255 y) g))
     = (if uart_write_ok env then t else last_uart_send_time g)"
  "\<exists>pkt. uart_tx (snd (transmit env t (clamp255 x, clamp255 y) g))
     = (if uart_write_ok env then uart_tx g @ [pkt] else uart_tx g)"
  by (simp_all add: transmit_clamped)

lemma gate_closed_platform_at:
  "gate_closed (platform_at t t1 t2 ok) g
     = (ticks_diff (ticks_ms t) (last_uart_send_time g) < current_send_interval_ms g)"
  by (simp add: gate_closed_def platform_at_def)

lemma send_gate_fields:
  "current_send_interval_ms (snd (send_target_coords env cx cy mode center radius ep g))
     = current_send_interval_ms g"
  "current_state (snd (send_target_coords env cx cy mode center radius ep g))
     = current_state g"
  "last_uart_send_time (snd (send_target_coords env cx cy mode center radius ep g))
     = (if gate_closed env g \<or> \<not> uart_write_ok env then last_uart_send_time g
        else ticks_at_entry env)"
  "\<exists>pkt. uart_tx (snd (send_target_coords env cx cy mode center radius ep g))
     = (if gate_closed env g \<or> \<not> uart_write_ok env then uart_tx g
        else uart_tx g @ [pkt])"
proof -
  obtain x y g3 where c: "circle_branch env (the center) (the radius) ep g
      = ((clamp255 x, clamp255 y), g3)"
    and u3: "uart_tx g3 = uart_tx g"
    and l3: "last_uart_send_time g3 = last_uart_send_time g"
    using circle_branch_shape by blast
  show "current_send_interval_ms (snd (send_target_coords env cx cy mode center radius ep g))
     = current_send_interval_ms g"
    by (simp add: send_target_coords_unfold transmit_keeps branch_keeps)
  show "current_state (snd (send_target_coords env cx cy mode center radius ep g))
     = current_state g"
    by (simp add: send_target_coords_unfold transmit_keeps branch_keeps)
  show "last_uart_send_time (snd (send_target_coords env cx cy mode center radius ep g))
     = (if gate_closed env g \<or> \<not> uart_write_ok env then last_uart_send_time g
        else ticks_at_entry env)"
    by (simp add: send_target_coords_unfold c aim_branch_eq transmit_clamped l3)
  show "\<exists>pkt. uart_tx (snd (send_target_coords env cx cy mode center radius ep g))
     = (if gate_closed env g \<or> \<not> uart_write_ok env then uart_tx g
        else uart_tx g @ [pkt])"
    by (simp add: send_target_coords_unfold c aim_branch_eq transmit_clamped u3)
qed

lemma step_Send_fields:
  "current_send_interval_ms (step g (Send t t1 t2 ok a)) = current_send_interval_ms g"
  "current_state (step g (Send t t1 t2 ok a)) = current_state g"
  "last_uart_send_time (step g (Send t t1 t2 ok a))
     = (if gate_closed (platform_at t t1 t2 ok) g \<or> \<not> ok then last_uart_send_time g
        else ticks_ms t)"
  "map (\<lambda>p. c) (written g (step g (Send t t1 t2 ok a)))
     = (if gate_closed (platform_at t t1 t2 ok) g \<or> \<not> ok then [] else [c])"
  "length (uart_tx (step g (Send t t1 t2 ok a)))
     = length (uart_tx g) + (if gate_closed (platform_at t t1 t2 ok) g \<or> \<not> ok then 0 else 1)"
proof -
  define env where "env = platform_at t t1 t2 ok"
  have w: "uart_write_ok env = ok" and en: "ticks_at_entry env = ticks_ms t"
    by (simp_all add: platform_at_def env_def)
  have st: "step g (Send t t1 t2 ok a)
      = snd (send_target_coords env (arg_cx a) (arg_cy a) (arg_mode a) (arg_center a)
          (arg_radius a) (arg_ellipse_params a) g)"
    by (simp add: send_with_def env_def)
  show "current_send_interval_ms (step g (Send t t1 t2 ok a)) = current_send_interval_ms g"
    unfolding st by (rule send_gate_fields)
  show "current_state (step g (Send t t1 t2 ok a)) = current_state g"
    unfolding st by (rule send_gate_fields)
  show "last_uart_send_time (step g (Send t t1 t2 ok a))
     = (if gate_closed (platform_at t t1 t2 ok) g \<or> \<not> ok then last_uart_send_time g
        else ticks_ms t)"
    unfolding st env_def [symmetric] by (simp only: send_gate_fields w en)
  obtain pkt where u: "uart_tx (step g (Send t t1 t2 ok a))
      = (if gate_closed env g \<or> \<not> uart_write_ok env then uart_tx g else uart_tx g @ [pkt])"
    unfolding st using send_gate_fields(4) by blast
  show "map (\<lambda>p. c) (written g (step g (Send t t1 t2 ok a)))
     = (if gate_closed (platform_at t t1 t2 ok) g \<or> \<not> ok then [] else [c])"
    unfolding env_def [symmetric] written_def u w by simp
  show "length (uart_tx (step g (Send t t1 t2 ok a)))
     = length (uart_tx g) + (if gate_closed (platform_at t t1 t2 ok) g \<or> \<not> ok then 0 else 1)"
    unfolding env_def [symmetric] u w by simp
qed

lemma step_Command_fields:
  "last_uart_send_time (step g (Command c)) = last_uart_send_time g"
  "uart_tx (step g (Command c)) = uart_tx g"
  "current_send_interval_ms g = 30 \<or> current_send_interval_ms g = 50 \<Longrightarrow>
     current_send_interval_ms (step g (Command c)) = 30
     \<or> current_send_interval_ms (step g (Command c)) = 50"
  by (cases "c = CMD_AIM_BULLSEYE \<or> c = CMD_CIRCLE_TRACKING \<or> c = CMD_IDLE";
      auto simp: handle_command_simps)+

lemma emissions_Send:
  "emissions g (Send t t1 t2 ok a # es)
     = (if gate_closed (platform_at t t1 t2 ok) g \<or> \<not> ok then []
        else [(t, current_send_interval_ms g)])
       @ emissions (step g (Send t t1 t2 ok a)) es"
  by (simp only: emissions.simps step_Send_fields)

lemma emissions_spaced:
  assumes "last_uart_send_time g = ticks_ms t0"
    and "\<forall>t\<in>set (send_times es). t0 \<le> t"
    and "sorted (send_times es)"
    and "current_send_interval_ms g = 30 \<or> current_send_interval_ms g = 50"
  shows "spaced t0 (emissions g es)"
  using assms
proof (induction es arbitrary: g t0)
  case Nil
  show ?case by simp
next
  case (Cons e es)
  show ?case
  proof (cases e)
    case (Command c)
    have "spaced t0 (emissions (step g (Command c)) es)"
    proof (rule Cons.IH)
      show "last_uart_send_time (step g (Command c)) = ticks_ms t0"
        using Cons.prems(1) by (simp only: step_Command_fields)
      show "\<forall>t\<in>set (send_times es). t0 \<le> t"
        using Cons.prems(2) Command by simp
      show "sorted (send_times es)"
        using Cons.prems(3) Command by simp
      show "current_send_interval_ms (step g (Command c)) = 30
          \<or> current_send_interval_ms (step g (Command c)) = 50"
        using Cons.prems(4) by (rule step_Command_fields)
    qed
    then show ?thesis
      using Command by simp
  next
    case (Send t t1 t2 ok a)
    let ?g' = "step g (Send t t1 t2 ok a)"
    have t0t: "t0 \<le> t"
      using Cons.prems(2) Send by simp
    have later: "\<forall>u\<in>set (send_times es). t \<le> u"
      using Cons.prems(3) Send by simp
    have srt: "sorted (send_times es)"
      using Cons.prems(3) Send by simp
    have iv: "current_send_interval_ms ?g' = 30 \<or> current_send_interval_ms ?g' = 50"
      using Cons.prems(4) by (simp only: step_Send_fields)
    show ?thesis
    proof (cases "gate_closed (platform_at t t1 t2 ok) g \<or> \<not> ok")
      case True
      have "spaced t0 (emissions ?g' es)"
      proof (rule Cons.IH)
        show "last_uart_send_time ?g' = ticks_ms t0"
          using True Cons.prems(1) by (simp add: step_Send_fields gate_closed_platform_at del: step.simps)
        show "\<forall>u\<in>set (send_times es). t0 \<le> u"
          using later t0t by auto
      qed (rule srt, rule iv)
      then show ?thesis
        using True Send by (simp only: emissions_Send if_True append_Nil)
    next
      case False
      then have gate: "\<not> ticks_diff (ticks_ms t) (ticks_ms t0) < current_send_interval_ms g"
        using Cons.prems(1) by (simp add: gate_closed_platform_at)
      have small: "current_send_interval_ms g \<le> 2 ^ 29"
        using Cons.prems(4) by auto
      have gap: "current_send_interval_ms g \<le> t - t0"
        by (rule ticks_gate_open [OF t0t small gate])
      have "spaced t (emissions ?g' es)"
      proof (rule Cons.IH)
        show "last_uart_send_time ?g' = ticks_ms t"
          using False by (simp add: step_Send_fields gate_closed_platform_at del: step.simps)
      qed (rule later, rule srt, rule iv)
      then have "spaced t0 ((t, current_send_interval_ms g) # emissions ?g' es)"
        using gap Cons.prems(4) by simp
      then show ?thesis
        using False Send by (simp only: emissions_Send if_False append_Cons append_Nil)
    qed
  qed
qed

lemma spaced_from:
  "spaced t0 l \<Longrightarrow> k < length l \<Longrightarrow> snd (l ! k) \<le> fst (l ! k) - t0"
proof (induction l arbitrary: t0 k)
  case Nil
  then show ?case by simp
next
  case (Cons p l)
  obtain t interval where p: "p = (t, interval)" by (cases p)
  have s: "interval \<le> t - t0" "interval = 30 \<or> interval = 50" "spaced t l"
    using Cons.prems(1) p by simp_all
  show ?case
  proof (cases k)
    case 0
    then show ?thesis using s p by simp
  next
    case (Suc k')
    then have "k' < length l" using Cons.prems(2) by simp
    from Cons.IH [OF s(3) this] have "snd (l ! k') \<le> fst (l ! k') - t" .
    moreover have "t0 \<le> t" using s(1) s(2) by auto
    ultimately show ?thesis using Suc by simp
  qed
qed

lemma spaced_pairs:
  "spaced t0 l \<Longrightarrow> i < j \<Longrightarrow> j < length l \<Longrightarrow> snd (l ! j) \<le> fst (l ! j) - fst (l ! i)"
proof (induction l arbitrary: t0 i j)
  case Nil
  then show ?case by simp
next
  case (Cons p l)
  obtain t interval where p: "p = (t, interval)" by (cases p)
  have s: "spaced t l"
    using Cons.prems(1) p by simp
  obtain j' where j: "j = Suc j'" and j': "j' < length l"
    using Cons.prems(2,3) by (cases j) simp_all
  show ?case
  proof (cases i)
    case 0
    from spaced_from [OF s j'] show ?thesis
      using 0 j p by simp
  next
    case (Suc i')
    then have "i' < j'" using Cons.prems(2) j by simp
    from Cons.IH [OF s this j'] show ?thesis
      using Suc j by simp
  qed
qed

lemma spaced_intervals:
  "spaced t0 l \<Longrightarrow> p \<in> set l \<Longrightarrow> snd p = 30 \<or> snd p = 50"
  by (induction l arbitrary: t0) auto

lemma time_floor:
  "ticks_ms (t - t mod 2 ^ 30) = 0 \<and> t - t mod 2 ^ 30 \<le> t"
  by (simp add: ticks_ms_def TICKS_PERIOD_def)

lemma emissions_spaced_initial:
  assumes "sorted (send_times es)"
  shows "\<exists>t0. spaced t0 (emissions initial_globals es)"
proof (cases "send_times es")
  case Nil
  have "spaced 0 (emissions initial_globals es)"
    by (rule emissions_spaced)
      (simp_all add: Nil initial_globals_def ticks_ms_def STANDARD_SEND_INTERVAL_MS_def)
  then show ?thesis by blast
next
  case (Cons t ts)
  let ?t0 = "t - t mod 2 ^ 30"
  have all: "\<forall>u\<in>set (send_times es). t \<le> u"
    using assms Cons by auto
  have "spaced ?t0 (emissions initial_globals es)"
  proof (rule emissions_spaced)
    show "last_uart_send_time initial_globals = ticks_ms ?t0"
      using time_floor [of t] by (simp add: initial_globals_def)
    show "\<forall>u\<in>set (send_times es). ?t0 \<le> u"
    proof
      fix u assume "u \<in> set (send_times es)"
      then have "t \<le> u" using all by blast
      moreover have "?t0 \<le> t" using time_floor [of t] by simp
      ultimately show "?t0 \<le> u" by simp
    qed
    show "sorted (send_times es)" by (rule assms)
    show "current_send_interval_ms initial_globals = 30
        \<or> current_send_interval_ms initial_globals = 50"
      by (simp add: initial_globals_def STANDARD_SEND_INTERVAL_MS_def)
  qed
  then show ?thesis by blast
qed

lemma run_uart_length:
  "length (uart_tx (run g es)) = length (uart_tx g) + length (emissions g es)"
proof (induction es arbitrary: g)
  case Nil
  show ?case by simp
next
  case (Cons e es)
  show ?case
  proof (cases e)
    case (Command c)
    have "length (uart_tx (step g (Command c))) = length (uart_tx g)"
      by (simp only: step_Command_fields)
    then show ?thesis
      using Cons.IH [of "step g (Command c)"] Command by simp
  next
    case (Send t t1 t2 ok a)
    show ?thesis
      using Cons.IH [of "step g (Send t t1 t2 ok a)"]
      by (simp only: Send run.simps emissions_Send step_Send_fields(5))
        (simp split: if_splits)
  qed
qed

lemma step_mode_interval: "mode_interval_ok g \<Longrightarrow> mode_interval_ok (step g e)"
proof (cases e)
  case (Command c)
  assume "mode_interval_ok g"
  then show ?thesis
    unfolding Command
    by (cases "c = CMD_AIM_BULLSEYE \<or> c = CMD_CIRCLE_TRACKING \<or> c = CMD_IDLE")
      (auto simp: handle_command_simps mode_interval_ok_def)
next
  case (Send t t1 t2 ok a)
  assume "mode_interval_ok g"
  then show ?thesis
    unfolding Send mode_interval_ok_def by (simp only: step_Send_fields)
qed

lemma run_mode_interval: "mode_interval_ok g \<Longrightarrow> mode_interval_ok (run g es)"
proof (induction es arbitrary: g)
  case Nil
  then show ?case by simp
next
  case (Cons e es)
  from Cons.IH [OF step_mode_interval [OF Cons.prems]] show ?case by simp
qed

text \<open>
  Claim C2. Take any sequence of commands and calls of \<open>send_target_coords\<close> from the
  initial state, the calls at times that do not decrease (times in milliseconds, the
  clock read through \<open>ticks_ms\<close>, which wraps). Of the packets written, any later one
  comes at least the interval configured at its call after any earlier one, and that
  interval is 30 or 50 ms; the emissions are all the packets of the transport. In
  every state reached the interval is 30 ms in aim mode and 50 ms in tracking mode. A
  call with \<open>ticks_diff(now, last_uart_send_time) < current_send_interval_ms\<close> writes
  nothing.
\<close>

theorem send_gate_spacing:
  "(sorted (send_times es) \<longrightarrow>
      (\<forall>i j. i < j \<and> j < length (emissions initial_globals es) \<longrightarrow>
         snd (emissions initial_globals es ! j)
           \<le> fst (emissions initial_globals es ! j) - fst (emissions initial_globals es ! i))
      \<and> (\<forall>p\<in>set (emissions initial_globals es). snd p = 30 \<or> snd p = 50))
   \<and> length (uart_tx (run initial_globals es)) = length (emissions initial_globals es)
   \<and> (current_state (run initial_globals es) = STATE_AIM_BULLSEYE \<longrightarrow>
        current_send_interval_ms (run initial_globals es) = 30)
   \<and> (current_state (run initial_globals es) = STATE_CIRCLE_TRACKING \<longrightarrow>
        current_send_interval_ms (run initial_globals es) = 50)
   \<and> (ticks_diff (ticks_at_entry env) (last_uart_send_time g) < current_send_interval_ms g
        \<longrightarrow> uart_tx (snd (send_target_coords env cx cy mode center radius ep g)) = uart_tx g)"
proof -
  have a: "sorted (send_times es) \<longrightarrow>
      (\<forall>i j. i < j \<and> j < length (emissions initial_globals es) \<longrightarrow>
         snd (emissions initial_globals es ! j)
           \<le> fst (emissions initial_globals es ! j) - fst (emissions initial_globals es ! i))
      \<and> (\<forall>p\<in>set (emissions initial_globals es). snd p = 30 \<or> snd p = 50)"
  proof
    assume "sorted (send_times es)"
    from emissions_spaced_initial [OF this] obtain t0 where
      s: "spaced t0 (emissions initial_globals es)" by blast
    show "(\<forall>i j. i < j \<and> j < length (emissions initial_globals es) \<longrightarrow>
         snd (emissions initial_globals es ! j)
           \<le> fst (emissions initial_globals es ! j) - fst (emissions initial_globals es ! i))
      \<and> (\<forall>p\<in>set (emissions initial_globals es). snd p = 30 \<or> snd p = 50)"
      using spaced_pairs [OF s] spaced_intervals [OF s] by blast
  qed
  have b: "length (uart_tx (run initial_globals es)) = length (emissions initial_globals es)"
    using run_uart_length [of initial_globals es] by (simp add: initial_globals_def)
  have "mode_interval_ok initial_globals"
    by (simp add: mode_interval_ok_def initial_globals_def)
  from run_mode_interval [OF this] have c: "mode_interval_ok (run initial_globals es)" .
  have d: "ticks_diff (ticks_at_entry env) (last_uart_send_time g) < current_send_interval_ms g
        \<longrightarrow> uart_tx (snd (send_target_coords env cx cy mode center radius ep g)) = uart_tx g"
    by (simp add: send_target_coords_unfold gate_closed_def)
  have c1: "current_state (run initial_globals es) = STATE_AIM_BULLSEYE \<longrightarrow>
        current_send_interval_ms (run initial_globals es) = 30"
    and c2: "current_state (run initial_globals es) = STATE_CIRCLE_TRACKING \<longrightarrow>
        current_send_interval_ms (run initial_globals es) = 50"
    using c unfolding mode_interval_ok_def by simp_all
  show ?thesis
    by (intro conjI) (rule a, rule b, rule c1, rule c2, rule d)
qed

lemma example_emissions:
  "emissions initial_globals example_events = [(40, 30), (75, 30), (130, 50)]"
  unfolding example_events_def
  by (simp add: emissions_Send step_Send_fields handle_command_simps
      gate_closed_platform_at ticks_ms_small ticks_diff_plain initial_globals_def
      STANDARD_SEND_INTERVAL_MS_def
      del: emissions.simps(3) step.simps(2))

lemma example_events_times: "send_times example_events = [40, 60, 75, 110, 130]"
  by (simp add: example_events_def)

lemma example_events_state:
  "current_state (run initial_globals example_events) = STATE_CIRCLE_TRACKING"
  unfolding example_events_def
  by (simp add: step_Send_fields handle_command_simps del: step.simps(2))

theorem send_gate_spacing_witness:
  "sorted (send_times example_events)
   \<and> emissions initial_globals example_events = [(40, 30), (75, 30), (130, 50)]
   \<and> snd (emissions initial_globals example_events ! 2)
       \<le> fst (emissions initial_globals example_events ! 2)
           - fst (emissions initial_globals example_events ! 1)
   \<and> length (uart_tx (run initial_globals example_events)) = 3
   \<and> current_send_interval_ms (run initial_globals example_events) = 50"
proof -
  note t = send_gate_spacing [of example_events example_platform initial_globals
      None None None None None None]
  have s: "sorted (send_times example_events)"
    by (simp add: example_events_times)
  have l: "length (emissions initial_globals example_events) = 3"
    by (simp add: example_emissions)
  from t s have "\<forall>i j. i < j \<and> j < length (emissions initial_globals example_events) \<longrightarrow>
         snd (emissions initial_globals example_events ! j)
           \<le> fst (emissions initial_globals example_events ! j)
               - fst (emissions initial_globals example_events ! i)"
    by blast
  then have p: "snd (emissions initial_globals example_events ! 2)
       \<le> fst (emissions initial_globals example_events ! 2)
           - fst (emissions initial_globals example_events ! 1)"
    using l by simp
  from t have n: "length (uart_tx (run initial_globals example_events)) = 3"
    using l by simp
  from t example_events_state
  have i: "current_send_interval_ms (run initial_globals example_events) = 50"
    by blast
  show ?thesis
    using s p n i example_emissions by simp
qed

end
